theory Spec2Isabelle
  imports Main "HOL-Library.Sublist" "HOL-Library.Multiset"
begin

section \<open>The file-based project and entity store of funnel-design-mcp\<close>

text \<open>
  This theory embeds \<^verbatim>\<open>src/storage/index.ts\<close>: the store that keeps one JSON file per
  project under \<^verbatim>\<open><root>/projects\<close> and one per entity under \<^verbatim>\<open><root>/entities\<close>.

  Conventions of the embedding.
  \<^item> Every asynchronous function becomes a function from the store state to a result and
    the new state. A rejected promise is \<open>Inl\<close> of the error, a resolved one \<open>Inr\<close>.
  \<^item> The outcomes of \<^verbatim>\<open>fs.readFile\<close> followed by \<^verbatim>\<open>JSON.parse\<close>, and of
    \<^verbatim>\<open>fs.unlink\<close>, are the ones the \<^verbatim>\<open>catch\<close> blocks of the source tell apart: an
    errno exception with its code (\<^verbatim>\<open>ENOENT\<close> for a missing file) or a
    \<^verbatim>\<open>SyntaxError\<close>. \<^verbatim>\<open>fs.writeFile\<close>, \<^verbatim>\<open>fs.mkdir\<close> and \<^verbatim>\<open>fs.readdir\<close> have no
    handler in the source and are taken to succeed.
  \<^item> A file that parses holds a record of the expected shape, and a record written with
    \<^verbatim>\<open>JSON.stringify\<close> parses back to itself; a path is the pair of its directory
    and its file name, so an id is a plain file-name stem and distinct root strings name
    distinct directories.
  \<^item> The values of \<^verbatim>\<open>generateId()\<close> and \<^verbatim>\<open>timestamp()\<close> read the clock and
    \<^verbatim>\<open>Math.random\<close>; they are arguments of the functions that call them. A timestamp
    is the number of milliseconds that \<^verbatim>\<open>new Date(iso).getTime()\<close> gives back for the
    ISO string.
  \<^item> A JavaScript string is its sequence of UTF-8 bytes; a JavaScript number is a value of
    a type parameter \<open>'n\<close>, printed and tested for truthiness by two functions that the
    formatter takes as arguments.
\<close>

subsection \<open>Errors\<close>

datatype storageErrorCode = NOT_FOUND | WRITE_FAILED | READ_FAILED | DELETE_FAILED | INVALID_DATA

text \<open>What the file system or \<^verbatim>\<open>JSON.parse\<close> throws: the cause of a storage error.\<close>

datatype jsError = ErrnoException string | SyntaxError

text \<open>
  What the store throws: \<^verbatim>\<open>new StorageError(message, code, cause)\<close> or
  \<^verbatim>\<open>new Error(message)\<close>.
\<close>

datatype error = StorageError string storageErrorCode jsError | Error string

fun errorMessage :: "error \<Rightarrow> string" where
  "errorMessage (StorageError m c e) = m"
| "errorMessage (Error m) = m"

fun isNodeError :: "jsError \<Rightarrow> bool" where
  "isNodeError (ErrnoException c) = True"
| "isNodeError SyntaxError = False"

fun errnoCode :: "jsError \<Rightarrow> string option" where
  "errnoCode (ErrnoException c) = Some c"
| "errnoCode SyntaxError = None"

text \<open>The test \<^verbatim>\<open>isNodeError(error) && error.code === "ENOENT"\<close> of every handler.\<close>

definition isENOENT :: "jsError \<Rightarrow> bool" where
  "isENOENT e = (isNodeError e \<and> errnoCode e = Some ''ENOENT'')"

subsection \<open>Records of the schemas\<close>

type_synonym timestamp = int

datatype entityKind = AidaFunnelT | ContentFunnelT | ConversionFunnelT | CustomerJourneyT

fun kindString :: "entityKind \<Rightarrow> string" where
  "kindString AidaFunnelT = ''aida-funnel''"
| "kindString ContentFunnelT = ''content-funnel''"
| "kindString ConversionFunnelT = ''conversion-funnel''"
| "kindString CustomerJourneyT = ''customer-journey''"

record citation =
  cit_id :: string
  cit_title :: string
  cit_url :: string
  cit_accessedAt :: string
  cit_relevantFields :: "string list"

record 'n researchMetadata =
  rm_citations :: "citation list option"
  rm_researchedAt :: "string option"
  rm_researchModel :: "string option"
  rm_confidence :: "'n option"
  rm_rawContent :: "string option"

paragraph \<open>AIDA funnel\<close>

record aidaChannel =
  ach_channel :: string
  ach_tactic :: "string option"
  ach_budget :: "string option"
  ach_expectedReach :: "string option"

record aidaHook =
  ahk_hook :: string
  ahk_format :: "string option"

record aidaAttention =
  att_channels :: "aidaChannel list"
  att_hooks :: "aidaHook list option"
  att_targetAudience :: "string option"

record aidaContentType =
  act_type :: string
  act_purpose :: "string option"
  act_format :: "string option"

record aidaInterest =
  int_contentTypes :: "aidaContentType list"
  int_engagementTactics :: "string list option"
  int_valueProposition :: "string option"
  int_painPointsAddressed :: "string list option"

record aidaSocialProof =
  asp_type :: string
  asp_content :: string

record aidaBenefit =
  abn_benefit :: string
  abn_emotionalTrigger :: "string option"

record aidaObjection =
  aob_objection :: string
  aob_response :: string

record aidaDesire =
  des_socialProof :: "aidaSocialProof list option"
  des_benefits :: "aidaBenefit list"
  des_urgencyTactics :: "string list option"
  des_objectionHandling :: "aidaObjection list option"

record aidaPrimaryCta =
  pcta_text :: string
  pcta_destination :: "string option"
  pcta_placement :: "string option"

record aidaSecondaryCta =
  scta_text :: string
  scta_destination :: "string option"

record aidaAction =
  action_primaryCta :: aidaPrimaryCta
  action_secondaryCtas :: "aidaSecondaryCta list option"
  action_frictionReducers :: "string list option"
  action_conversionGoal :: "string option"
  action_expectedConversionRate :: "string option"

record aidaMetrics =
  am_awarenessKpis :: "string list option"
  am_engagementKpis :: "string list option"
  am_conversionKpis :: "string list option"

record aidaFunnel =
  aida_attention :: aidaAttention
  aida_interest :: aidaInterest
  aida_desire :: aidaDesire
  aida_action :: aidaAction
  aida_metrics :: "aidaMetrics option"

paragraph \<open>Content funnel\<close>

record tofuContent =
  tc_type :: string
  tc_topic :: string
  tc_format :: "string option"
  tc_distributionChannel :: "string option"

record tofuStage =
  tofu_goal :: string
  tofu_audience :: "string option"
  tofu_contentTypes :: "tofuContent list"
  tofu_keywords :: "string list option"
  tofu_cta :: "string option"
  tofu_successMetrics :: "string list option"

record mofuContent =
  mc_type :: string
  mc_topic :: string
  mc_format :: "string option"
  mc_gatingStrategy :: "string option"

record leadMagnet =
  lm_name :: string
  lm_type :: string
  lm_valueProposition :: "string option"

record 'n emailSequence =
  es_name :: string
  es_emails :: 'n
  es_goal :: "string option"

record 'n mofuStage =
  mofu_goal :: string
  mofu_nurturingStrategy :: "string option"
  mofu_contentTypes :: "mofuContent list"
  mofu_leadMagnets :: "leadMagnet list option"
  mofu_emailSequences :: "'n emailSequence list option"
  mofu_successMetrics :: "string list option"

record bofuContent =
  bc_type :: string
  bc_topic :: string
  bc_format :: "string option"

record salesAsset =
  sa_asset :: string
  sa_useCase :: "string option"

record bofuStage =
  bofu_goal :: string
  bofu_contentTypes :: "bofuContent list"
  bofu_salesEnablement :: "salesAsset list option"
  bofu_conversionTactics :: "string list option"
  bofu_pricingStrategy :: "string option"
  bofu_successMetrics :: "string list option"

record calendarItem =
  cal_stage :: string
  cal_contentPiece :: string
  cal_publishDate :: "string option"
  cal_owner :: "string option"
  cal_status :: "string option"

record 'n contentFunnel =
  cf_tofu :: tofuStage
  cf_mofu :: "'n mofuStage"
  cf_bofu :: bofuStage
  cf_contentCalendar :: "calendarItem list option"

paragraph \<open>Conversion funnel\<close>

record 'n funnelStage =
  fs_name :: string
  fs_description :: "string option"
  fs_entryCriteria :: "string option"
  fs_exitCriteria :: "string option"
  fs_volume :: "'n option"
  fs_conversionRate :: "'n option"
  fs_averageTimeInStage :: "string option"
  fs_keyActions :: "string list option"
  fs_dropOffReasons :: "string list option"
  fs_optimizationNotes :: "string option"

record 'n trafficSource =
  ts_source :: string
  ts_medium :: "string option"
  ts_volume :: "'n option"
  ts_qualityScore :: "'n option"
  ts_cost :: "string option"
  ts_conversionRate :: "'n option"

record 'n overallMetrics =
  om_totalVisitors :: "'n option"
  om_totalConversions :: "'n option"
  om_overallConversionRate :: "'n option"
  om_averageDealValue :: "string option"
  om_customerAcquisitionCost :: "string option"
  om_timeToConversion :: "string option"

record bottleneck =
  bn_stage :: string
  bn_issue :: string
  bn_impact :: "string option"
  bn_proposedSolution :: "string option"

record 'n conversionFunnel =
  conv_stages :: "'n funnelStage list"
  conv_trafficSources :: "'n trafficSource list option"
  conv_overallMetrics :: "'n overallMetrics option"
  conv_bottlenecks :: "bottleneck list option"

paragraph \<open>Customer journey\<close>

record touchpoint =
  tp_channel :: string
  tp_interaction :: string
  tp_owner :: "string option"

record emotion =
  em_feeling :: string
  em_intensity :: "string option"

record journeyStage =
  js_name :: string
  js_description :: "string option"
  js_customerGoal :: string
  js_duration :: "string option"
  js_touchpoints :: "touchpoint list"
  js_emotions :: "emotion option"
  js_painPoints :: "string list option"
  js_opportunities :: "string list option"
  js_keyQuestions :: "string list option"

record momentOfTruth =
  mot_stage :: string
  mot_moment :: string
  mot_importance :: "string option"
  mot_currentExperience :: "string option"
  mot_desiredExperience :: "string option"

record journeyChannel =
  jc_name :: string
  jc_role :: "string option"
  jc_effectiveness :: "string option"

record improvement =
  imp_stage :: string
  imp_improvement :: string
  imp_priority :: "string option"
  imp_effort :: "string option"
  imp_expectedImpact :: "string option"

record customerJourney =
  cj_personaReference :: "string option"
  cj_stages :: "journeyStage list"
  cj_momentsOfTruth :: "momentOfTruth list option"
  cj_channels :: "journeyChannel list option"
  cj_improvements :: "improvement list option"

paragraph \<open>Entities and projects\<close>

text \<open>
  The four variants of \<^verbatim>\<open>EntityType\<close>; the \<^verbatim>\<open>type\<close> discriminant of an entity is
  the constructor of its variant part.
\<close>

datatype 'n entityBody =
    AidaBody aidaFunnel
  | ContentBody "'n contentFunnel"
  | ConversionBody "'n conversionFunnel"
  | JourneyBody customerJourney

fun bodyKind :: "'n entityBody \<Rightarrow> entityKind" where
  "bodyKind (AidaBody a) = AidaFunnelT"
| "bodyKind (ContentBody c) = ContentFunnelT"
| "bodyKind (ConversionBody c) = ConversionFunnelT"
| "bodyKind (JourneyBody j) = CustomerJourneyT"

text \<open>The argument of \<^verbatim>\<open>createEntity\<close>: an entity without the four fields the store assigns.\<close>

record 'n payload =
  pl_name :: string
  pl_description :: "string option"
  pl_researchMetadata :: "'n researchMetadata option"
  pl_body :: "'n entityBody"

record 'n entity =
  e_id :: string
  e_projectId :: string
  e_createdAt :: timestamp
  e_updatedAt :: timestamp
  e_researchMetadata :: "'n researchMetadata option"
  e_name :: string
  e_description :: "string option"
  e_body :: "'n entityBody"

definition e_type :: "'n entity \<Rightarrow> entityKind" where
  "e_type e = bodyKind (e_body e)"

record entityRef =
  ref_id :: string
  ref_type :: entityKind

record project =
  p_id :: string
  p_name :: string
  p_description :: "string option"
  p_createdAt :: timestamp
  p_updatedAt :: timestamp
  p_tags :: "string list option"
  p_entities :: "entityRef list"

subsection \<open>The file system and the process state\<close>

text \<open>
  The content of a file as \<^verbatim>\<open>fs.readFile\<close> and \<^verbatim>\<open>JSON.parse\<close> see it: text that
  parses to a record, text that \<^verbatim>\<open>JSON.parse\<close> rejects, or a file whose read fails with
  an errno code.
\<close>

datatype 'a fileContent = Json 'a | Malformed | Failing string

type_synonym path = "string \<times> string"

text \<open>
  The state the module reads and writes: the environment variable and the working
  directory, the module variable \<^verbatim>\<open>initializedDataDir\<close>, the directories passed to
  \<^verbatim>\<open>fs.mkdir\<close> so far (oldest first), what \<^verbatim>\<open>console.error\<close> has printed, the two
  collections of files, and for each path the errno code with which \<^verbatim>\<open>fs.unlink\<close> of an
  existing file fails there, if it does.
\<close>

record 'n store =
  envDataDir :: "string option"
  cwd :: string
  initializedDataDir :: "string option"
  mkdirCalls :: "string list"
  consoleErrors :: "(string \<times> jsError) list"
  projectFiles :: "path \<Rightarrow> project fileContent option"
  entityFiles :: "path \<Rightarrow> 'n entity fileContent option"
  unlinkFault :: "path \<Rightarrow> string option"

definition join :: "string \<Rightarrow> string \<Rightarrow> string" where
  "join a b = a @ ''/'' @ b"

definition getDataDir :: "'n store \<Rightarrow> string" where
  "getDataDir s =
     (case envDataDir s of
        None \<Rightarrow> join (cwd s) ''.funnel-design''
      | Some d \<Rightarrow> if d = [] then join (cwd s) ''.funnel-design'' else d)"

definition getProjectsDir :: "'n store \<Rightarrow> string" where
  "getProjectsDir s = join (getDataDir s) ''projects''"

definition getEntitiesDir :: "'n store \<Rightarrow> string" where
  "getEntitiesDir s = join (getDataDir s) ''entities''"

definition projectPath :: "'n store \<Rightarrow> string \<Rightarrow> path" where
  "projectPath s projectId = (getProjectsDir s, projectId @ ''.json'')"

definition entityPath :: "'n store \<Rightarrow> string \<Rightarrow> path" where
  "entityPath s entityId = (getEntitiesDir s, entityId @ ''.json'')"

definition ensureDirectories :: "'n store \<Rightarrow> 'n store" where
  "ensureDirectories s =
     (let currentDataDir = getDataDir s in
      if initializedDataDir s = Some currentDataDir then s
      else s\<lparr>mkdirCalls := mkdirCalls s @ [getProjectsDir s, getEntitiesDir s],
             initializedDataDir := Some currentDataDir\<rparr>)"

definition resetDirectoryInit :: "'n store \<Rightarrow> 'n store" where
  "resetDirectoryInit s = s\<lparr>initializedDataDir := None\<rparr>"

text \<open>\<^verbatim>\<open>JSON.parse(await fs.readFile(path, "utf-8"))\<close> inside a \<^verbatim>\<open>try\<close>.\<close>

fun readJson :: "'a fileContent option \<Rightarrow> jsError + 'a" where
  "readJson None = Inl (ErrnoException ''ENOENT'')"
| "readJson (Some (Failing c)) = Inl (ErrnoException c)"
| "readJson (Some Malformed) = Inl SyntaxError"
| "readJson (Some (Json v)) = Inr v"

text \<open>\<^verbatim>\<open>fs.unlink(path)\<close>: the smaller directory, or what it throws.\<close>

definition unlink ::
  "(path \<Rightarrow> 'a option) \<Rightarrow> (path \<Rightarrow> string option) \<Rightarrow> path \<Rightarrow> jsError + (path \<Rightarrow> 'a option)" where
  "unlink files faults p =
     (case files p of
        None \<Rightarrow> Inl (ErrnoException ''ENOENT'')
      | Some f \<Rightarrow>
          (case faults p of
             Some c \<Rightarrow> Inl (ErrnoException c)
           | None \<Rightarrow> Inr (files(p := None))))"

subsection \<open>Projects\<close>

definition createProject ::
  "'n store \<Rightarrow> string \<Rightarrow> string option \<Rightarrow> string list option \<Rightarrow> string \<Rightarrow> timestamp \<Rightarrow> timestamp
     \<Rightarrow> project \<times> 'n store" where
  "createProject s name description tags newId tCreated tUpdated =
     (let s1 = ensureDirectories s;
          project = \<lparr>p_id = newId, p_name = name, p_description = description,
                     p_createdAt = tCreated, p_updatedAt = tUpdated, p_tags = tags,
                     p_entities = []\<rparr>
      in (project,
          s1\<lparr>projectFiles := (projectFiles s1)(projectPath s1 (p_id project) \<mapsto> Json project)\<rparr>))"

definition getProject :: "'n store \<Rightarrow> string \<Rightarrow> (error + project option) \<times> 'n store" where
  "getProject s projectId =
     (let s1 = ensureDirectories s in
      case readJson (projectFiles s1 (projectPath s1 projectId)) of
        Inr p \<Rightarrow> (Inr (Some p), s1)
      | Inl err \<Rightarrow>
          if isENOENT err then (Inr None, s1)
          else (Inl (StorageError (''Failed to read project '' @ projectId) READ_FAILED err), s1))"

definition updateProject :: "'n store \<Rightarrow> project \<Rightarrow> timestamp \<Rightarrow> project \<times> 'n store" where
  "updateProject s project t =
     (let s1 = ensureDirectories s;
          project1 = project\<lparr>p_updatedAt := t\<rparr>
      in (project1,
          s1\<lparr>projectFiles := (projectFiles s1)(projectPath s1 (p_id project1) \<mapsto> Json project1)\<rparr>))"

subsection \<open>Entities\<close>

definition getEntity :: "'n store \<Rightarrow> string \<Rightarrow> (error + 'n entity option) \<times> 'n store" where
  "getEntity s entityId =
     (let s1 = ensureDirectories s in
      case readJson (entityFiles s1 (entityPath s1 entityId)) of
        Inr e \<Rightarrow> (Inr (Some e), s1)
      | Inl err \<Rightarrow>
          if isENOENT err then (Inr None, s1)
          else (Inl (StorageError (''Failed to read entity '' @ entityId) READ_FAILED err), s1))"

definition updateEntity :: "'n store \<Rightarrow> 'n entity \<Rightarrow> timestamp \<Rightarrow> 'n entity \<times> 'n store" where
  "updateEntity s entity t =
     (let s1 = ensureDirectories s;
          entity1 = entity\<lparr>e_updatedAt := t\<rparr>
      in (entity1,
          s1\<lparr>entityFiles := (entityFiles s1)(entityPath s1 (e_id entity1) \<mapsto> Json entity1)\<rparr>))"

text \<open>
  \<^verbatim>\<open>createEntity\<close>: \<open>newId\<close> is the value of \<^verbatim>\<open>generateId()\<close>, \<open>tCreated\<close> and
  \<open>tUpdated\<close> the two values of \<^verbatim>\<open>timestamp()\<close> in the object literal, \<open>tProject\<close> the
  one inside \<^verbatim>\<open>updateProject\<close>.
\<close>

definition createEntity ::
  "'n store \<Rightarrow> string \<Rightarrow> 'n payload \<Rightarrow> string \<Rightarrow> timestamp \<Rightarrow> timestamp \<Rightarrow> timestamp
     \<Rightarrow> (error + 'n entity) \<times> 'n store" where
  "createEntity s projectId entity newId tCreated tUpdated tProject =
     (let s1 = ensureDirectories s in
      case getProject s1 projectId of
        (Inl err, s2) \<Rightarrow> (Inl err, s2)
      | (Inr None, s2) \<Rightarrow> (Inl (Error (''Project '' @ projectId @ '' not found'')), s2)
      | (Inr (Some project), s2) \<Rightarrow>
          (let fullEntity = \<lparr>e_id = newId, e_projectId = projectId, e_createdAt = tCreated,
                             e_updatedAt = tUpdated,
                             e_researchMetadata = pl_researchMetadata entity,
                             e_name = pl_name entity, e_description = pl_description entity,
                             e_body = pl_body entity\<rparr>;
               s3 = s2\<lparr>entityFiles :=
                        (entityFiles s2)(entityPath s2 (e_id fullEntity) \<mapsto> Json fullEntity)\<rparr>;
               project1 = project\<lparr>p_entities := p_entities project @
                                   [\<lparr>ref_id = e_id fullEntity, ref_type = e_type fullEntity\<rparr>]\<rparr>;
               (project2, s4) = updateProject s3 project1 tProject
           in (Inr fullEntity, s4)))"

text \<open>\<^verbatim>\<open>deleteEntity\<close>: \<open>t\<close> is the value of \<^verbatim>\<open>timestamp()\<close> inside \<^verbatim>\<open>updateProject\<close>.\<close>

definition deleteEntity :: "'n store \<Rightarrow> string \<Rightarrow> timestamp \<Rightarrow> (error + bool) \<times> 'n store" where
  "deleteEntity s entityId t =
     (let s1 = ensureDirectories s in
      case getEntity s1 entityId of
        (Inl err, s2) \<Rightarrow> (Inl err, s2)
      | (Inr None, s2) \<Rightarrow> (Inr False, s2)
      | (Inr (Some entity), s2) \<Rightarrow>
          (case getProject s2 (e_projectId entity) of
             (Inl err, s3) \<Rightarrow> (Inl err, s3)
           | (Inr found, s3) \<Rightarrow>
               (let s4 = (case found of
                            None \<Rightarrow> s3
                          | Some project \<Rightarrow>
                              snd (updateProject s3
                                     (project\<lparr>p_entities :=
                                        filter (\<lambda>e. ref_id e \<noteq> entityId) (p_entities project)\<rparr>) t))
                in case unlink (entityFiles s4) (unlinkFault s4) (entityPath s4 entityId) of
                     Inr files \<Rightarrow> (Inr True, s4\<lparr>entityFiles := files\<rparr>)
                   | Inl err \<Rightarrow>
                       if isENOENT err then (Inr False, s4)
                       else (Inl (StorageError (''Failed to delete entity '' @ entityId)
                                    DELETE_FAILED err), s4))))"

text \<open>
  \<^verbatim>\<open>Promise.all(ids.map(getEntity))\<close>: the reads change nothing but the directory
  cache, so their interleaving does not matter; when several reject, the model reports the
  one first in the list.
\<close>

fun getEntities :: "'n store \<Rightarrow> string list \<Rightarrow> (error + 'n entity option list) \<times> 'n store" where
  "getEntities s [] = (Inr [], s)"
| "getEntities s (i # ids) =
     (case getEntity s i of
        (Inl err, s1) \<Rightarrow> (Inl err, s1)
      | (Inr r, s1) \<Rightarrow>
          (case getEntities s1 ids of
             (Inl err, s2) \<Rightarrow> (Inl err, s2)
           | (Inr rs, s2) \<Rightarrow> (Inr (r # rs), s2)))"

text \<open>\<^verbatim>\<open>xs.filter((e) => e !== null)\<close>\<close>

fun nonNull :: "'a option list \<Rightarrow> 'a list" where
  "nonNull [] = []"
| "nonNull (None # xs) = nonNull xs"
| "nonNull (Some x # xs) = x # nonNull xs"

definition listEntitiesByProject :: "'n store \<Rightarrow> string \<Rightarrow> (error + 'n entity list) \<times> 'n store" where
  "listEntitiesByProject s projectId =
     (let s1 = ensureDirectories s in
      case getProject s1 projectId of
        (Inl err, s2) \<Rightarrow> (Inl err, s2)
      | (Inr None, s2) \<Rightarrow> (Inr [], s2)
      | (Inr (Some project), s2) \<Rightarrow>
          (case getEntities s2 (map ref_id (p_entities project)) of
             (Inl err, s3) \<Rightarrow> (Inl err, s3)
           | (Inr entities, s3) \<Rightarrow> (Inr (nonNull entities), s3)))"

definition listEntitiesByType ::
  "'n store \<Rightarrow> string \<Rightarrow> entityKind \<Rightarrow> (error + 'n entity list) \<times> 'n store" where
  "listEntitiesByType s projectId type =
     (case listEntitiesByProject s projectId of
        (Inl err, s1) \<Rightarrow> (Inl err, s1)
      | (Inr entities, s1) \<Rightarrow> (Inr (filter (\<lambda>e. e_type e = type) entities), s1))"

text \<open>
  \<^verbatim>\<open>exportProjectToJson\<close>: the JSON text is represented by the document
  \<^verbatim>\<open>{ project, entities }\<close> that it serialises.
\<close>

definition exportProjectToJson ::
  "'n store \<Rightarrow> string \<Rightarrow> (error + project \<times> 'n entity list) \<times> 'n store" where
  "exportProjectToJson s projectId =
     (case getProject s projectId of
        (Inl err, s1) \<Rightarrow> (Inl err, s1)
      | (Inr None, s1) \<Rightarrow> (Inl (Error (''Project '' @ projectId @ '' not found'')), s1)
      | (Inr (Some project), s1) \<Rightarrow>
          (case listEntitiesByProject s1 projectId of
             (Inl err, s2) \<Rightarrow> (Inl err, s2)
           | (Inr entities, s2) \<Rightarrow> (Inr (project, entities), s2)))"

text \<open>\<^verbatim>\<open>f.endsWith(suf)\<close>\<close>

definition endsWith :: "string \<Rightarrow> string \<Rightarrow> bool" where
  "endsWith f suf = (length suf \<le> length f \<and> drop (length f - length suf) f = suf)"

text \<open>
  The callback that \<^verbatim>\<open>listProjects\<close> maps over the file names: a file that cannot be
  read or parsed is reported through \<^verbatim>\<open>console.error\<close> and yields \<^verbatim>\<open>null\<close>.
\<close>

definition readProjectFile :: "'n store \<Rightarrow> string \<Rightarrow> project option \<times> 'n store" where
  "readProjectFile s fileName =
     (case readJson (projectFiles s (getProjectsDir s, fileName)) of
        Inr p \<Rightarrow> (Some p, s)
      | Inl err \<Rightarrow>
          (None, s\<lparr>consoleErrors := consoleErrors s @
                     [(''Failed to read project file '' @ fileName @ '':'', err)]\<rparr>))"

fun readProjectFiles :: "'n store \<Rightarrow> string list \<Rightarrow> project option list \<times> 'n store" where
  "readProjectFiles s [] = ([], s)"
| "readProjectFiles s (f # fs) =
     (let (r, s1) = readProjectFile s f;
          (rs, s2) = readProjectFiles s1 fs
      in (r # rs, s2))"

text \<open>
  \<^verbatim>\<open>listProjects\<close>: \<open>files\<close> is the value of \<^verbatim>\<open>fs.readdir(getProjectsDir())\<close>, the
  names in the directory in the order the operating system lists them.
  \<^verbatim>\<open>Array.prototype.sort\<close> is stable, and so is \<open>sort_key\<close>; the comparator
  \<^verbatim>\<open>getTime(b.updatedAt) - getTime(a.updatedAt)\<close> orders by descending timestamp.
\<close>

definition isReaddir :: "'n store \<Rightarrow> string list \<Rightarrow> bool" where
  "isReaddir s files =
     (distinct files \<and> set files = {f. projectFiles s (getProjectsDir s, f) \<noteq> None})"

definition listProjects :: "'n store \<Rightarrow> string list \<Rightarrow> project list \<times> 'n store" where
  "listProjects s files =
     (let s1 = ensureDirectories s;
          jsonFiles = filter (\<lambda>f. endsWith f ''.json'') files;
          (projects, s2) = readProjectFiles s1 jsonFiles
      in (sort_key (\<lambda>p. - p_updatedAt p) (nonNull projects), s2))"

subsection \<open>Deleting a project\<close>

text \<open>
  \<^verbatim>\<open>deleteProject\<close> starts one \<^verbatim>\<open>deleteEntity\<close> per reference and awaits them
  together, so the calls interleave at their \<^verbatim>\<open>await\<close>s. A call in progress is a
  task; each step of a task performs the one file operation up to its next \<^verbatim>\<open>await\<close>:
  reading the entity, reading the owning project, rewriting the project, unlinking the
  entity file. File operations are atomic.
\<close>

datatype 'n deleteTask =
    AwaitGetEntity string
  | AwaitGetProject string "'n entity"
  | AwaitUpdateProject string project
  | AwaitUnlink string
  | Settled "error + bool"

fun stepDelete :: "'n store \<Rightarrow> timestamp \<Rightarrow> 'n deleteTask \<Rightarrow> 'n deleteTask \<times> 'n store" where
  "stepDelete s t (AwaitGetEntity entityId) =
     (case getEntity (ensureDirectories s) entityId of
        (Inl err, s1) \<Rightarrow> (Settled (Inl err), s1)
      | (Inr None, s1) \<Rightarrow> (Settled (Inr False), s1)
      | (Inr (Some entity), s1) \<Rightarrow> (AwaitGetProject entityId entity, s1))"
| "stepDelete s t (AwaitGetProject entityId entity) =
     (case getProject s (e_projectId entity) of
        (Inl err, s1) \<Rightarrow> (Settled (Inl err), s1)
      | (Inr None, s1) \<Rightarrow> (AwaitUnlink entityId, s1)
      | (Inr (Some project), s1) \<Rightarrow>
          (AwaitUpdateProject entityId
             (project\<lparr>p_entities := filter (\<lambda>e. ref_id e \<noteq> entityId) (p_entities project)\<rparr>),
           s1))"
| "stepDelete s t (AwaitUpdateProject entityId project) =
     (AwaitUnlink entityId, snd (updateProject s project t))"
| "stepDelete s t (AwaitUnlink entityId) =
     (case unlink (entityFiles s) (unlinkFault s) (entityPath s entityId) of
        Inr files \<Rightarrow> (Settled (Inr True), s\<lparr>entityFiles := files\<rparr>)
      | Inl err \<Rightarrow>
          if isENOENT err then (Settled (Inr False), s)
          else (Settled (Inl (StorageError (''Failed to delete entity '' @ entityId)
                                DELETE_FAILED err)), s))"
| "stepDelete s t (Settled r) = (Settled r, s)"

fun isSettled :: "'n deleteTask \<Rightarrow> bool" where
  "isSettled (Settled r) = True"
| "isSettled task = False"

fun rejection :: "'n deleteTask \<Rightarrow> error option" where
  "rejection (Settled (Inl err)) = Some err"
| "rejection task = None"

text \<open>
  A schedule says which task runs its next step, and what \<^verbatim>\<open>timestamp()\<close> returns if
  that step calls it. \<open>runSchedule\<close> carries the tasks and the first rejection so far,
  the one with which \<^verbatim>\<open>Promise.all\<close> rejects.
\<close>

type_synonym schedule = "(nat \<times> timestamp) list"

fun runSchedule ::
  "'n store \<Rightarrow> 'n deleteTask list \<Rightarrow> error option \<Rightarrow> schedule
     \<Rightarrow> ('n deleteTask list \<times> error option) \<times> 'n store" where
  "runSchedule s tasks rejected [] = ((tasks, rejected), s)"
| "runSchedule s tasks rejected ((i, t) # sched) =
     (if i < length tasks then
        (let (task1, s1) = stepDelete s t (tasks ! i);
             rejected1 = (case rejected of Some err \<Rightarrow> Some err | None \<Rightarrow> rejection task1)
         in runSchedule s1 (tasks[i := task1]) rejected1 sched)
      else runSchedule s tasks rejected sched)"

text \<open>
  \<^verbatim>\<open>deleteProject\<close> under a schedule for its \<^verbatim>\<open>Promise.all\<close>. The result is \<open>None\<close>
  when the schedule ends with a task unsettled and none rejected: the promise is still
  pending. After a rejection the other tasks go on; the state returned is the one at the
  end of the schedule.
\<close>

definition deleteProject ::
  "'n store \<Rightarrow> string \<Rightarrow> schedule \<Rightarrow> (error + bool) option \<times> 'n store" where
  "deleteProject s projectId sched =
     (let s1 = ensureDirectories s in
      case getProject s1 projectId of
        (Inl err, s2) \<Rightarrow> (Some (Inl err), s2)
      | (Inr None, s2) \<Rightarrow> (Some (Inr False), s2)
      | (Inr (Some project), s2) \<Rightarrow>
          (case runSchedule s2 (map (\<lambda>ref. AwaitGetEntity (ref_id ref)) (p_entities project))
                  None sched of
             ((tasks, Some err), s3) \<Rightarrow> (Some (Inl err), s3)
           | ((tasks, None), s3) \<Rightarrow>
               if list_all isSettled tasks then
                 (case unlink (projectFiles s3) (unlinkFault s3) (projectPath s3 projectId) of
                    Inr files \<Rightarrow> (Some (Inr True), s3\<lparr>projectFiles := files\<rparr>)
                  | Inl err \<Rightarrow>
                      if isENOENT err then (Some (Inr False), s3)
                      else (Some (Inl (StorageError (''Failed to delete project '' @ projectId)
                                         DELETE_FAILED err)), s3))
               else (None, s3)))"


subsection \<open>Export to Markdown\<close>

definition nl :: string where
  "nl = [CHR 0x0A]"

text \<open>The right arrow U+2192 of the templates, in UTF-8.\<close>

definition arrow :: string where
  "arrow = [CHR 0xE2, CHR 0x86, CHR 0x92]"

text \<open>\<^verbatim>\<open>if (x) md += f(x)\<close> for an optional string: absent and empty are both falsy.\<close>

definition ifStr :: "string option \<Rightarrow> (string \<Rightarrow> string) \<Rightarrow> string" where
  "ifStr x f = (case x of None \<Rightarrow> [] | Some v \<Rightarrow> if v = [] then [] else f v)"

text \<open>\<^verbatim>\<open>if (xs?.length) md += f(xs)\<close> for an optional array.\<close>

definition ifLength :: "'a list option \<Rightarrow> ('a list \<Rightarrow> string) \<Rightarrow> string" where
  "ifLength xs f = (case xs of None \<Rightarrow> [] | Some l \<Rightarrow> if l = [] then [] else f l)"

text \<open>\<^verbatim>\<open>if (x !== undefined)\<close>, and \<^verbatim>\<open>if (x)\<close> for an optional object.\<close>

definition ifDefined :: "'a option \<Rightarrow> ('a \<Rightarrow> string) \<Rightarrow> string" where
  "ifDefined x f = (case x of None \<Rightarrow> [] | Some v \<Rightarrow> f v)"

text \<open>\<^verbatim>\<open>if (n) md += f(n)\<close> for an optional number.\<close>

definition ifNum :: "('n \<Rightarrow> bool) \<Rightarrow> 'n option \<Rightarrow> ('n \<Rightarrow> string) \<Rightarrow> string" where
  "ifNum numTruthy x f = (case x of None \<Rightarrow> [] | Some v \<Rightarrow> if numTruthy v then f v else [])"

text \<open>\<^verbatim>\<open>xs.join(sep)\<close> on an array of strings.\<close>

fun joinWith :: "string \<Rightarrow> string list \<Rightarrow> string" where
  "joinWith sep [] = []"
| "joinWith sep [x] = x"
| "joinWith sep (x # y # ys) = x @ sep @ joinWith sep (y # ys)"

text \<open>\<^verbatim>\<open>for (const x of xs) md += f(x)\<close>\<close>

definition forEach :: "'a list \<Rightarrow> ('a \<Rightarrow> string) \<Rightarrow> string" where
  "forEach xs f = concat (map f xs)"

definition formatAidaFunnel :: "string \<Rightarrow> string option \<Rightarrow> aidaFunnel \<Rightarrow> string" where
  "formatAidaFunnel name description a =
     ''## AIDA Funnel: '' @ name @ nl @ nl @
     ifStr description (\<lambda>d. d @ nl @ nl) @
     ''### Attention'' @ nl @
     ifStr (att_targetAudience (aida_attention a))
       (\<lambda>v. ''**Target Audience:** '' @ v @ nl @ nl) @
     ''#### Channels'' @ nl @
     forEach (att_channels (aida_attention a)) (\<lambda>ch.
       ''- **'' @ ach_channel ch @ ''**'' @
       ifStr (ach_tactic ch) (\<lambda>v. '' - '' @ v) @
       ifStr (ach_budget ch) (\<lambda>v. '' (Budget: '' @ v @ '')'') @
       ifStr (ach_expectedReach ch) (\<lambda>v. '' | Reach: '' @ v) @
       nl) @
     ifLength (att_hooks (aida_attention a)) (\<lambda>hooks.
       nl @ ''#### Hooks'' @ nl @
       forEach hooks (\<lambda>hook.
         ''- '' @ ahk_hook hook @
         ifStr (ahk_format hook) (\<lambda>v. '' ('' @ v @ '')'') @
         nl)) @
     nl @
     ''### Interest'' @ nl @
     ifStr (int_valueProposition (aida_interest a))
       (\<lambda>v. ''**Value Proposition:** '' @ v @ nl @ nl) @
     ''#### Content Types'' @ nl @
     forEach (int_contentTypes (aida_interest a)) (\<lambda>ct.
       ''- **'' @ act_type ct @ ''**'' @
       ifStr (act_purpose ct) (\<lambda>v. '' - '' @ v) @
       ifStr (act_format ct) (\<lambda>v. '' ('' @ v @ '')'') @
       nl) @
     ifLength (int_painPointsAddressed (aida_interest a)) (\<lambda>xs.
       nl @ ''**Pain Points Addressed:** '' @ joinWith '', '' xs @ nl) @
     nl @
     ''### Desire'' @ nl @
     ''#### Benefits'' @ nl @
     forEach (des_benefits (aida_desire a)) (\<lambda>ben.
       ''- **'' @ abn_benefit ben @ ''**'' @
       ifStr (abn_emotionalTrigger ben) (\<lambda>v. '' (Trigger: '' @ v @ '')'') @
       nl) @
     ifLength (des_socialProof (aida_desire a)) (\<lambda>sps.
       nl @ ''#### Social Proof'' @ nl @
       forEach sps (\<lambda>sp. ''- ['' @ asp_type sp @ ''] '' @ asp_content sp @ nl)) @
     ifLength (des_objectionHandling (aida_desire a)) (\<lambda>objs.
       nl @ ''#### Objection Handling'' @ nl @
       forEach objs (\<lambda>obj.
         ''- **'' @ aob_objection obj @ ''** '' @ arrow @ '' '' @ aob_response obj @ nl)) @
     nl @
     ''### Action'' @ nl @
     ''**Primary CTA:** '' @ pcta_text (action_primaryCta (aida_action a)) @
     ifStr (pcta_destination (action_primaryCta (aida_action a)))
       (\<lambda>v. '' '' @ arrow @ '' '' @ v) @
     nl @ nl @
     ifLength (action_secondaryCtas (aida_action a)) (\<lambda>ctas.
       ''**Secondary CTAs:**'' @ nl @
       forEach ctas (\<lambda>cta.
         ''- '' @ scta_text cta @
         ifStr (scta_destination cta) (\<lambda>v. '' '' @ arrow @ '' '' @ v) @
         nl) @
       nl) @
     ifStr (action_conversionGoal (aida_action a))
       (\<lambda>v. ''**Conversion Goal:** '' @ v @ nl) @
     ifStr (action_expectedConversionRate (aida_action a))
       (\<lambda>v. ''**Expected Conversion Rate:** '' @ v @ nl) @
     nl"

definition formatContentFunnel :: "string \<Rightarrow> string option \<Rightarrow> 'n contentFunnel \<Rightarrow> string" where
  "formatContentFunnel name description c =
     ''## Content Funnel: '' @ name @ nl @ nl @
     ifStr description (\<lambda>d. d @ nl @ nl) @
     ''### Top of Funnel (TOFU)'' @ nl @
     ''**Goal:** '' @ tofu_goal (cf_tofu c) @ nl @ nl @
     ifStr (tofu_audience (cf_tofu c)) (\<lambda>v. ''**Audience:** '' @ v @ nl @ nl) @
     ''#### Content'' @ nl @
     forEach (tofu_contentTypes (cf_tofu c)) (\<lambda>ct.
       ''- **'' @ tc_type ct @ '':** '' @ tc_topic ct @
       ifStr (tc_format ct) (\<lambda>v. '' ('' @ v @ '')'') @
       ifStr (tc_distributionChannel ct) (\<lambda>v. '' via '' @ v) @
       nl) @
     ifLength (tofu_keywords (cf_tofu c)) (\<lambda>xs.
       nl @ ''**Keywords:** '' @ joinWith '', '' xs @ nl) @
     ifStr (tofu_cta (cf_tofu c)) (\<lambda>v. ''**CTA:** '' @ v @ nl) @
     nl @
     ''### Middle of Funnel (MOFU)'' @ nl @
     ''**Goal:** '' @ mofu_goal (cf_mofu c) @ nl @ nl @
     ifStr (mofu_nurturingStrategy (cf_mofu c))
       (\<lambda>v. ''**Nurturing Strategy:** '' @ v @ nl @ nl) @
     ''#### Content'' @ nl @
     forEach (mofu_contentTypes (cf_mofu c)) (\<lambda>ct.
       ''- **'' @ mc_type ct @ '':** '' @ mc_topic ct @
       ifStr (mc_format ct) (\<lambda>v. '' ('' @ v @ '')'') @
       ifStr (mc_gatingStrategy ct) (\<lambda>v. '' ['' @ v @ '']'') @
       nl) @
     ifLength (mofu_leadMagnets (cf_mofu c)) (\<lambda>lms.
       nl @ ''#### Lead Magnets'' @ nl @
       forEach lms (\<lambda>lm.
         ''- **'' @ lm_name lm @ ''** ('' @ lm_type lm @ '')'' @
         ifStr (lm_valueProposition lm) (\<lambda>v. '': '' @ v) @
         nl)) @
     nl @
     ''### Bottom of Funnel (BOFU)'' @ nl @
     ''**Goal:** '' @ bofu_goal (cf_bofu c) @ nl @ nl @
     ''#### Content'' @ nl @
     forEach (bofu_contentTypes (cf_bofu c)) (\<lambda>ct.
       ''- **'' @ bc_type ct @ '':** '' @ bc_topic ct @
       ifStr (bc_format ct) (\<lambda>v. '' ('' @ v @ '')'') @
       nl) @
     ifLength (bofu_conversionTactics (cf_bofu c)) (\<lambda>xs.
       nl @ ''**Conversion Tactics:** '' @ joinWith '', '' xs @ nl) @
     ifStr (bofu_pricingStrategy (cf_bofu c)) (\<lambda>v. ''**Pricing Strategy:** '' @ v @ nl) @
     nl"

text \<open>The body of the loop over \<^verbatim>\<open>entity.stages\<close> of a conversion funnel.\<close>

definition formatFunnelStage :: "('n \<Rightarrow> string) \<Rightarrow> 'n funnelStage \<Rightarrow> string" where
  "formatFunnelStage numStr stage =
     ''#### '' @ fs_name stage @ nl @
     ifStr (fs_description stage) (\<lambda>v. v @ nl @ nl) @
     ifStr (fs_entryCriteria stage) (\<lambda>v. ''**Entry:** '' @ v @ nl) @
     ifStr (fs_exitCriteria stage) (\<lambda>v. ''**Exit:** '' @ v @ nl) @
     ifDefined (fs_volume stage) (\<lambda>v. ''**Volume:** '' @ numStr v @ nl) @
     ifDefined (fs_conversionRate stage) (\<lambda>v. ''**Conversion Rate:** '' @ numStr v @ ''%'' @ nl) @
     ifStr (fs_averageTimeInStage stage) (\<lambda>v. ''**Avg Time:** '' @ v @ nl) @
     ifLength (fs_dropOffReasons stage) (\<lambda>xs.
       ''**Drop-off Reasons:** '' @ joinWith '', '' xs @ nl) @
     ifStr (fs_optimizationNotes stage) (\<lambda>v. ''**Optimization:** '' @ v @ nl) @
     nl"

definition formatConversionFunnel ::
  "('n \<Rightarrow> string) \<Rightarrow> ('n \<Rightarrow> bool) \<Rightarrow> string \<Rightarrow> string option \<Rightarrow> 'n conversionFunnel \<Rightarrow> string" where
  "formatConversionFunnel numStr numTruthy name description c =
     ''## Conversion Funnel: '' @ name @ nl @ nl @
     ifStr description (\<lambda>d. d @ nl @ nl) @
     ''### Stages'' @ nl @
     forEach (conv_stages c) (formatFunnelStage numStr) @
     ifLength (conv_trafficSources c) (\<lambda>tss.
       ''### Traffic Sources'' @ nl @
       forEach tss (\<lambda>ts.
         ''- **'' @ ts_source ts @ ''**'' @
         ifStr (ts_medium ts) (\<lambda>v. '' ('' @ v @ '')'') @
         ifNum numTruthy (ts_volume ts) (\<lambda>v. '' - '' @ numStr v @ '' visitors'') @
         ifNum numTruthy (ts_conversionRate ts) (\<lambda>v. '' | '' @ numStr v @ ''% conversion'') @
         nl) @
       nl) @
     ifDefined (conv_overallMetrics c) (\<lambda>om.
       ''### Overall Metrics'' @ nl @
       ifNum numTruthy (om_totalVisitors om) (\<lambda>v. ''- **Total Visitors:** '' @ numStr v @ nl) @
       ifNum numTruthy (om_totalConversions om)
         (\<lambda>v. ''- **Total Conversions:** '' @ numStr v @ nl) @
       ifNum numTruthy (om_overallConversionRate om)
         (\<lambda>v. ''- **Overall Conversion Rate:** '' @ numStr v @ ''%'' @ nl) @
       ifStr (om_averageDealValue om) (\<lambda>v. ''- **Average Deal Value:** '' @ v @ nl) @
       ifStr (om_customerAcquisitionCost om) (\<lambda>v. ''- **CAC:** '' @ v @ nl) @
       nl) @
     ifLength (conv_bottlenecks c) (\<lambda>bns.
       ''### Bottlenecks'' @ nl @
       forEach bns (\<lambda>bn.
         ''- **'' @ bn_stage bn @ '':** '' @ bn_issue bn @
         ifStr (bn_impact bn) (\<lambda>v. '' ('' @ v @ '' impact)'') @
         ifStr (bn_proposedSolution bn) (\<lambda>v. nl @ ''  - Solution: '' @ v) @
         nl) @
       nl)"

definition formatJourneyStage :: "journeyStage \<Rightarrow> string" where
  "formatJourneyStage stage =
     ''#### '' @ js_name stage @ nl @
     ifStr (js_description stage) (\<lambda>v. v @ nl @ nl) @
     ''**Customer Goal:** '' @ js_customerGoal stage @ nl @
     ifStr (js_duration stage) (\<lambda>v. ''**Duration:** '' @ v @ nl) @
     nl @
     ''**Touchpoints:**'' @ nl @
     forEach (js_touchpoints stage) (\<lambda>tp.
       ''- '' @ tp_channel tp @ '': '' @ tp_interaction tp @
       ifStr (tp_owner tp) (\<lambda>v. '' ('' @ v @ '')'') @
       nl) @
     ifDefined (js_emotions stage) (\<lambda>em.
       nl @ ''**Emotion:** '' @ em_feeling em @
       ifStr (em_intensity em) (\<lambda>v. '' ('' @ v @ '')'') @
       nl) @
     ifLength (js_painPoints stage) (\<lambda>xs. ''**Pain Points:** '' @ joinWith '', '' xs @ nl) @
     ifLength (js_opportunities stage) (\<lambda>xs.
       ''**Opportunities:** '' @ joinWith '', '' xs @ nl) @
     nl"

definition formatCustomerJourney :: "string \<Rightarrow> string option \<Rightarrow> customerJourney \<Rightarrow> string" where
  "formatCustomerJourney name description j =
     ''## Customer Journey: '' @ name @ nl @ nl @
     ifStr description (\<lambda>d. d @ nl @ nl) @
     ifStr (cj_personaReference j) (\<lambda>v. ''**Persona:** '' @ v @ nl @ nl) @
     ''### Stages'' @ nl @
     forEach (cj_stages j) formatJourneyStage @
     ifLength (cj_momentsOfTruth j) (\<lambda>mots.
       ''### Moments of Truth'' @ nl @
       forEach mots (\<lambda>mot.
         ''- **'' @ mot_stage mot @ '':** '' @ mot_moment mot @
         ifStr (mot_importance mot) (\<lambda>v. '' ('' @ v @ '')'') @
         nl @
         ifStr (mot_currentExperience mot) (\<lambda>v. ''  - Current: '' @ v @ nl) @
         ifStr (mot_desiredExperience mot) (\<lambda>v. ''  - Desired: '' @ v @ nl)) @
       nl) @
     ifLength (cj_improvements j) (\<lambda>imps.
       ''### Improvements'' @ nl @
       forEach imps (\<lambda>imp.
         ''- **'' @ imp_stage imp @ '':** '' @ imp_improvement imp @
         ifStr (imp_priority imp) (\<lambda>v. '' ['' @ v @ '']'') @
         ifStr (imp_expectedImpact imp) (\<lambda>v. '' '' @ arrow @ '' '' @ v) @
         nl) @
       nl)"

text \<open>
  \<^verbatim>\<open>formatEntityAsMarkdown\<close>: the \<^verbatim>\<open>switch\<close> on \<^verbatim>\<open>entity.type\<close>. \<open>numStr\<close> is the
  conversion of a number in a template literal, \<open>numTruthy\<close> its truthiness.
\<close>

definition formatEntityAsMarkdown :: "('n \<Rightarrow> string) \<Rightarrow> ('n \<Rightarrow> bool) \<Rightarrow> 'n entity \<Rightarrow> string" where
  "formatEntityAsMarkdown numStr numTruthy entity =
     (case e_body entity of
        AidaBody a \<Rightarrow> formatAidaFunnel (e_name entity) (e_description entity) a
      | ContentBody c \<Rightarrow> formatContentFunnel (e_name entity) (e_description entity) c
      | ConversionBody c \<Rightarrow>
          formatConversionFunnel numStr numTruthy (e_name entity) (e_description entity) c
      | JourneyBody j \<Rightarrow> formatCustomerJourney (e_name entity) (e_description entity) j)"

definition exportProjectToMarkdown ::
  "('n \<Rightarrow> string) \<Rightarrow> ('n \<Rightarrow> bool) \<Rightarrow> 'n store \<Rightarrow> string \<Rightarrow> (error + string) \<times> 'n store" where
  "exportProjectToMarkdown numStr numTruthy s projectId =
     (case getProject s projectId of
        (Inl err, s1) \<Rightarrow> (Inl err, s1)
      | (Inr None, s1) \<Rightarrow> (Inl (Error (''Project '' @ projectId @ '' not found'')), s1)
      | (Inr (Some project), s1) \<Rightarrow>
          (case listEntitiesByProject s1 projectId of
             (Inl err, s2) \<Rightarrow> (Inl err, s2)
           | (Inr entities, s2) \<Rightarrow>
               (Inr (''# '' @ p_name project @ nl @ nl @
                     ifStr (p_description project) (\<lambda>d. d @ nl @ nl) @
                     ifLength (p_tags project) (\<lambda>tags.
                       ''**Tags:** '' @ joinWith '', '' tags @ nl @ nl) @
                     ''---'' @ nl @ nl @
                     forEach entities (\<lambda>entity.
                       formatEntityAsMarkdown numStr numTruthy entity @
                       nl @ ''---'' @ nl @ nl)),
                s2)))"

subsection \<open>The life of a process\<close>

text \<open>
  The exported operations as values, with the arguments and the clock and random values
  they consume, and what else happens to the state of a process: the test setup calls
  \<^verbatim>\<open>resetDirectoryInit\<close>, and the host assigns the environment variable.
\<close>

datatype 'n call =
    CreateProject string "string option" "string list option" string timestamp timestamp
  | GetProject string
  | UpdateProject project timestamp
  | DeleteProject string schedule
  | ListProjects "string list"
  | CreateEntity string "'n payload" string timestamp timestamp timestamp
  | GetEntity string
  | UpdateEntity "'n entity" timestamp
  | DeleteEntity string timestamp
  | ListEntitiesByProject string
  | ListEntitiesByType string entityKind
  | ExportProjectToJson string
  | ExportProjectToMarkdown "'n \<Rightarrow> string" "'n \<Rightarrow> bool" string

datatype 'n event = Call "'n call" | ResetDirectoryInit | SetDataDir "string option"

fun perform :: "'n store \<Rightarrow> 'n call \<Rightarrow> 'n store" where
  "perform s (CreateProject name description tags newId t1 t2) =
     snd (createProject s name description tags newId t1 t2)"
| "perform s (GetProject projectId) = snd (getProject s projectId)"
| "perform s (UpdateProject project t) = snd (updateProject s project t)"
| "perform s (DeleteProject projectId sched) = snd (deleteProject s projectId sched)"
| "perform s (ListProjects files) = snd (listProjects s files)"
| "perform s (CreateEntity projectId entity newId t1 t2 t3) =
     snd (createEntity s projectId entity newId t1 t2 t3)"
| "perform s (GetEntity entityId) = snd (getEntity s entityId)"
| "perform s (UpdateEntity entity t) = snd (updateEntity s entity t)"
| "perform s (DeleteEntity entityId t) = snd (deleteEntity s entityId t)"
| "perform s (ListEntitiesByProject projectId) = snd (listEntitiesByProject s projectId)"
| "perform s (ListEntitiesByType projectId type) = snd (listEntitiesByType s projectId type)"
| "perform s (ExportProjectToJson projectId) = snd (exportProjectToJson s projectId)"
| "perform s (ExportProjectToMarkdown numStr numTruthy projectId) =
     snd (exportProjectToMarkdown numStr numTruthy s projectId)"

fun occur :: "'n store \<Rightarrow> 'n event \<Rightarrow> 'n store" where
  "occur s (Call c) = perform s c"
| "occur s ResetDirectoryInit = resetDirectoryInit s"
| "occur s (SetDataDir d) = s\<lparr>envDataDir := d\<rparr>"

definition run :: "'n store \<Rightarrow> 'n event list \<Rightarrow> 'n store" where
  "run s events = foldl occur s events"

text \<open>
  Every operation that writes a record writes it to the file named after the id of the
  record. A store has this property when each parsable file holds a record whose id is
  the stem of the file name.
\<close>

definition storedUnderOwnId :: "'n store \<Rightarrow> bool" where
  "storedUnderOwnId s =
     ((\<forall>d f p. projectFiles s (d, f) = Some (Json p) \<longrightarrow> f = p_id p @ ''.json'') \<and>
      (\<forall>d f e. entityFiles s (d, f) = Some (Json e) \<longrightarrow> f = e_id e @ ''.json''))"

text \<open>Two states of one process that differ in their files and console output at most.\<close>

definition sameProcess :: "'n store \<Rightarrow> 'n store \<Rightarrow> bool" where
  "sameProcess s s' =
     (envDataDir s' = envDataDir s \<and> cwd s' = cwd s \<and>
      initializedDataDir s' = initializedDataDir s \<and> mkdirCalls s' = mkdirCalls s \<and>
      unlinkFault s' = unlinkFault s)"

subsection \<open>Notions for schedules\<close>


text \<open>A file that a read does not fail on: it is absent or holds a record.\<close>

fun readable :: "'a fileContent option \<Rightarrow> bool" where
  "readable None = True"
| "readable (Some (Json v)) = True"
| "readable (Some Malformed) = False"
| "readable (Some (Failing c)) = False"

text \<open>
  What the steps of the tasks do to a store between them: entity files are only removed,
  project files only written, and nothing else changes.
\<close>

definition deletionProgress :: "'n store \<Rightarrow> 'n store \<Rightarrow> bool" where
  "deletionProgress s s' =
     (sameProcess s s' \<and>
      (\<forall>k. entityFiles s' k = None \<or> entityFiles s' k = entityFiles s k) \<and>
      (\<forall>k. readable (projectFiles s k) \<longrightarrow> readable (projectFiles s' k)) \<and>
      (\<forall>k. projectFiles s k \<noteq> None \<longrightarrow> projectFiles s' k \<noteq> None))"


subsection \<open>A process to run the operations in\<close>

text \<open>A process that has just started, on a disk with no files.\<close>

definition freshStore :: "nat store" where
  "freshStore =
     \<lparr>envDataDir = Some ''/data'', cwd = ''/srv'', initializedDataDir = None,
      mkdirCalls = [], consoleErrors = [],
      projectFiles = (\<lambda>p. None), entityFiles = (\<lambda>p. None), unlinkFault = (\<lambda>p. None)\<rparr>"



definition demoStage :: "string \<Rightarrow> nat \<Rightarrow> nat funnelStage" where
  "demoStage name rate =
     \<lparr>fs_name = name, fs_description = None, fs_entryCriteria = None, fs_exitCriteria = None,
      fs_volume = None, fs_conversionRate = Some rate, fs_averageTimeInStage = None,
      fs_keyActions = None, fs_dropOffReasons = None, fs_optimizationNotes = None\<rparr>"

text \<open>The conversion funnel of the export test: two stages, at 50 and 30 percent.\<close>

definition demoPayload :: "nat payload" where
  "demoPayload =
     \<lparr>pl_name = ''Test Funnel'', pl_description = None, pl_researchMetadata = None,
      pl_body = ConversionBody
        \<lparr>conv_stages = [demoStage ''Awareness'' 50, demoStage ''Interest'' 30],
         conv_trafficSources = None, conv_overallMetrics = None, conv_bottlenecks = None\<rparr>\<rparr>"

text \<open>One project, created in the fresh process.\<close>

definition demoProject :: project where
  "demoProject = fst (createProject freshStore ''Export Test'' (Some ''Test description'') None ''p1'' 1000 1000)"

definition oneProject :: "nat store" where
  "oneProject = snd (createProject freshStore ''Export Test'' (Some ''Test description'') None ''p1'' 1000 1000)"

text \<open>The project with one conversion funnel, and the funnel as stored.\<close>

definition oneEntity :: "nat store" where
  "oneEntity = snd (createEntity oneProject ''p1'' demoPayload ''e1'' 2000 2000 2001)"

definition demoEntity :: "nat entity" where
  "demoEntity =
     \<lparr>e_id = ''e1'', e_projectId = ''p1'', e_createdAt = 2000, e_updatedAt = 2000,
      e_researchMetadata = None, e_name = ''Test Funnel'', e_description = None,
      e_body = pl_body demoPayload\<rparr>"


text \<open>The same with an entity file that the process may not unlink.\<close>

definition pinned :: "nat store" where
  "pinned = oneEntity\<lparr>unlinkFault := (\<lambda>p. None)((''/data/entities'', ''e1.json'') \<mapsto> ''EPERM'')\<rparr>"

text \<open>
  The project file written back from a stale copy without references: the funnel has
  become an orphan.
\<close>

definition orphaned :: "nat store" where
  "orphaned = snd (updateProject oneEntity demoProject 2500)"

text \<open>A project that refers to the funnel and to an entity that has no file.\<close>

definition dangling :: "nat store" where
  "dangling = snd (updateProject oneEntity
     (demoProject\<lparr>p_entities := [\<lparr>ref_id = ''gone'', ref_type = AidaFunnelT\<rparr>,
                                 \<lparr>ref_id = ''e1'', ref_type = ConversionFunnelT\<rparr>]\<rparr>) 2500)"

text \<open>
  Three projects created one after the other, then the first one renamed; and the same
  directory with a file that is not JSON and a file that is not named \<^verbatim>\<open>*.json\<close>.
\<close>

definition threeProjects :: "nat store" where
  "threeProjects =
     snd (updateProject
       (snd (createProject
         (snd (createProject
           (snd (createProject freshStore ''Project 1'' None None ''a'' 10 10))
           ''Project 2'' None None ''b'' 20 20))
         ''Project 3'' None None ''c'' 30 30))
       \<lparr>p_id = ''a'', p_name = ''Project 1 Updated'', p_description = None, p_createdAt = 10,
        p_updatedAt = 10, p_tags = None, p_entities = []\<rparr>
       40)"

definition withJunk :: "nat store" where
  "withJunk = threeProjects\<lparr>projectFiles := (projectFiles threeProjects)
     ((''/data/projects'', ''junk.json'') \<mapsto> Malformed,
      (''/data/projects'', ''notes.txt'') \<mapsto> Malformed)\<rparr>"



section \<open>Properties\<close>

subsection \<open>The directory cache\<close>

lemma getDataDir_ensureDirectories [simp]: "getDataDir (ensureDirectories s) = getDataDir s"
  by (simp add: ensureDirectories_def getDataDir_def Let_def split: option.splits)

lemma getProjectsDir_ensureDirectories [simp]:
  "getProjectsDir (ensureDirectories s) = getProjectsDir s"
  by (simp add: getProjectsDir_def)

lemma getEntitiesDir_ensureDirectories [simp]:
  "getEntitiesDir (ensureDirectories s) = getEntitiesDir s"
  by (simp add: getEntitiesDir_def)

lemma projectPath_ensureDirectories [simp]:
  "projectPath (ensureDirectories s) i = projectPath s i"
  by (simp add: projectPath_def)

lemma entityPath_ensureDirectories [simp]:
  "entityPath (ensureDirectories s) i = entityPath s i"
  by (simp add: entityPath_def)

lemma fields_ensureDirectories [simp]:
  "projectFiles (ensureDirectories s) = projectFiles s"
  "entityFiles (ensureDirectories s) = entityFiles s"
  "unlinkFault (ensureDirectories s) = unlinkFault s"
  "consoleErrors (ensureDirectories s) = consoleErrors s"
  "envDataDir (ensureDirectories s) = envDataDir s"
  "cwd (ensureDirectories s) = cwd s"
  by (simp_all add: ensureDirectories_def Let_def)

lemma initialized_ensureDirectories [simp]:
  "initializedDataDir (ensureDirectories s) = Some (getDataDir s)"
  by (simp add: ensureDirectories_def Let_def)

lemma ensureDirectories_idem [simp]:
  "ensureDirectories (ensureDirectories s) = ensureDirectories s"
  by (simp add: ensureDirectories_def [of "ensureDirectories s"])

lemma ensureDirectories_cached:
  "initializedDataDir s = Some (getDataDir s) \<Longrightarrow> ensureDirectories s = s"
  by (simp add: ensureDirectories_def)

text \<open>The root depends on the environment only; writing or unlinking a file keeps it.\<close>

lemma getDataDir_update [simp]:
  "getDataDir (s\<lparr>projectFiles := pf\<rparr>) = getDataDir s"
  "getDataDir (s\<lparr>entityFiles := ef\<rparr>) = getDataDir s"
  "getDataDir (s\<lparr>consoleErrors := ce\<rparr>) = getDataDir s"
  "getDataDir (s\<lparr>unlinkFault := uf\<rparr>) = getDataDir s"
  "getDataDir (s\<lparr>mkdirCalls := mk\<rparr>) = getDataDir s"
  "getDataDir (s\<lparr>initializedDataDir := ini\<rparr>) = getDataDir s"
  by (simp_all add: getDataDir_def split: option.splits)

lemma getProjectsDir_update [simp]:
  "getProjectsDir (s\<lparr>projectFiles := pf\<rparr>) = getProjectsDir s"
  "getProjectsDir (s\<lparr>entityFiles := ef\<rparr>) = getProjectsDir s"
  "getProjectsDir (s\<lparr>consoleErrors := ce\<rparr>) = getProjectsDir s"
  "getProjectsDir (s\<lparr>unlinkFault := uf\<rparr>) = getProjectsDir s"
  "getProjectsDir (s\<lparr>mkdirCalls := mk\<rparr>) = getProjectsDir s"
  "getProjectsDir (s\<lparr>initializedDataDir := ini\<rparr>) = getProjectsDir s"
  by (simp_all add: getProjectsDir_def)

lemma getEntitiesDir_update [simp]:
  "getEntitiesDir (s\<lparr>projectFiles := pf\<rparr>) = getEntitiesDir s"
  "getEntitiesDir (s\<lparr>entityFiles := ef\<rparr>) = getEntitiesDir s"
  "getEntitiesDir (s\<lparr>consoleErrors := ce\<rparr>) = getEntitiesDir s"
  "getEntitiesDir (s\<lparr>unlinkFault := uf\<rparr>) = getEntitiesDir s"
  "getEntitiesDir (s\<lparr>mkdirCalls := mk\<rparr>) = getEntitiesDir s"
  "getEntitiesDir (s\<lparr>initializedDataDir := ini\<rparr>) = getEntitiesDir s"
  by (simp_all add: getEntitiesDir_def)

lemma projectPath_update [simp]:
  "projectPath (s\<lparr>projectFiles := pf\<rparr>) i = projectPath s i"
  "projectPath (s\<lparr>entityFiles := ef\<rparr>) i = projectPath s i"
  "projectPath (s\<lparr>consoleErrors := ce\<rparr>) i = projectPath s i"
  "projectPath (s\<lparr>unlinkFault := uf\<rparr>) i = projectPath s i"
  by (simp_all add: projectPath_def)

lemma entityPath_update [simp]:
  "entityPath (s\<lparr>projectFiles := pf\<rparr>) i = entityPath s i"
  "entityPath (s\<lparr>entityFiles := ef\<rparr>) i = entityPath s i"
  "entityPath (s\<lparr>consoleErrors := ce\<rparr>) i = entityPath s i"
  "entityPath (s\<lparr>unlinkFault := uf\<rparr>) i = entityPath s i"
  by (simp_all add: entityPath_def)

lemma ensureDirectories_update [simp]:
  "ensureDirectories (s\<lparr>projectFiles := pf\<rparr>) = (ensureDirectories s)\<lparr>projectFiles := pf\<rparr>"
  "ensureDirectories (s\<lparr>entityFiles := ef\<rparr>) = (ensureDirectories s)\<lparr>entityFiles := ef\<rparr>"
  "ensureDirectories (s\<lparr>consoleErrors := ce\<rparr>) = (ensureDirectories s)\<lparr>consoleErrors := ce\<rparr>"
  "ensureDirectories (s\<lparr>unlinkFault := uf\<rparr>) = (ensureDirectories s)\<lparr>unlinkFault := uf\<rparr>"
  by (simp_all add: ensureDirectories_def Let_def)

lemma json_name_inject [simp]: "(a @ ''.json'' = b @ ''.json'') = (a = b)"
  by simp

lemma projectPath_inject [simp]: "(projectPath s a = projectPath s b) = (a = b)"
  by (simp add: projectPath_def)

lemma entityPath_inject [simp]: "(entityPath s a = entityPath s b) = (a = b)"
  by (simp add: entityPath_def)

subsection \<open>Reading and writing single records\<close>

lemma snd_getProject [simp]: "snd (getProject s i) = ensureDirectories s"
  by (simp add: getProject_def Let_def split: sum.splits)

lemma snd_getEntity [simp]: "snd (getEntity s i) = ensureDirectories s"
  by (simp add: getEntity_def Let_def split: sum.splits)


lemma getProject_Json:
  "projectFiles s (projectPath s i) = Some (Json p) \<Longrightarrow>
   getProject s i = (Inr (Some p), ensureDirectories s)"
  by (simp add: getProject_def Let_def)


lemma getEntity_absent:
  "entityFiles s (entityPath s i) = None \<Longrightarrow> getEntity s i = (Inr None, ensureDirectories s)"
  by (simp add: getEntity_def Let_def isENOENT_def)

lemma getEntity_Json:
  "entityFiles s (entityPath s i) = Some (Json e) \<Longrightarrow>
   getEntity s i = (Inr (Some e), ensureDirectories s)"
  by (simp add: getEntity_def Let_def)

lemma updateProject_eq:
  "updateProject s p t =
     (p\<lparr>p_updatedAt := t\<rparr>,
      (ensureDirectories s)\<lparr>projectFiles :=
         (projectFiles s)(projectPath s (p_id p) \<mapsto> Json (p\<lparr>p_updatedAt := t\<rparr>))\<rparr>)"
  by (simp add: updateProject_def Let_def)

lemma getEntity_state: "getEntity s i = (r, s') \<Longrightarrow> s' = ensureDirectories s"
  by (metis snd_conv snd_getEntity)

lemma getProject_state: "getProject s i = (r, s') \<Longrightarrow> s' = ensureDirectories s"
  by (metis snd_conv snd_getProject)


subsection \<open>Creating, deleting and listing entities\<close>

lemma createEntity_Json:
  assumes "projectFiles s (projectPath s projectId) = Some (Json P)"
  shows "createEntity s projectId pl newId tc tu tp =
     (Inr \<lparr>e_id = newId, e_projectId = projectId, e_createdAt = tc, e_updatedAt = tu,
           e_researchMetadata = pl_researchMetadata pl, e_name = pl_name pl,
           e_description = pl_description pl, e_body = pl_body pl\<rparr>,
      (ensureDirectories s)\<lparr>
         entityFiles := (entityFiles s)(entityPath s newId \<mapsto>
           Json \<lparr>e_id = newId, e_projectId = projectId, e_createdAt = tc, e_updatedAt = tu,
                 e_researchMetadata = pl_researchMetadata pl, e_name = pl_name pl,
                 e_description = pl_description pl, e_body = pl_body pl\<rparr>),
         projectFiles := (projectFiles s)(projectPath s (p_id P) \<mapsto>
           Json (P\<lparr>p_entities := p_entities P @ [\<lparr>ref_id = newId, ref_type = bodyKind (pl_body pl)\<rparr>],
                   p_updatedAt := tp\<rparr>))\<rparr>)"
  using assms
  by (simp add: createEntity_def Let_def getProject_Json updateProject_eq e_type_def)








lemma deleteEntity_unlink_fails:
  assumes "entityFiles s (entityPath s i) = Some (Json e)"
      and "projectFiles s (projectPath s (e_projectId e)) = Some (Json p)"
      and "unlinkFault s (entityPath s i) = Some c"
      and "c \<noteq> ''ENOENT''"
  shows "deleteEntity s i t =
     (Inl (StorageError (''Failed to delete entity '' @ i) DELETE_FAILED (ErrnoException c)),
      (ensureDirectories s)\<lparr>
         projectFiles := (projectFiles s)(projectPath s (p_id p) \<mapsto>
           Json (p\<lparr>p_entities := filter (\<lambda>r. ref_id r \<noteq> i) (p_entities p), p_updatedAt := t\<rparr>))\<rparr>)"
  using assms
  by (simp add: deleteEntity_def Let_def getEntity_Json getProject_Json updateProject_eq unlink_def
      isENOENT_def)

text \<open>A call of \<open>deleteEntity\<close> on its own is its task run through its four steps.\<close>

lemma deleteEntity_steps:
  "(let (k1, s1) = stepDelete s t (AwaitGetEntity i);
        (k2, s2) = stepDelete s1 t k1;
        (k3, s3) = stepDelete s2 t k2
    in stepDelete s3 t k3) =
   (Settled (fst (deleteEntity s i t)), snd (deleteEntity s i t))"
  by (auto simp: deleteEntity_def Let_def updateProject_eq
      split: prod.splits sum.splits option.splits
      dest!: getEntity_state getProject_state)

subsection \<open>What every operation preserves\<close>

lemma run_Nil [simp]: "run s [] = s"
  by (simp add: run_def)

lemma run_Cons [simp]: "run s (e # es) = run (occur s e) es"
  by (simp add: run_def)

lemma run_append [simp]: "run s (es @ fs) = run (run s es) fs"
  by (simp add: run_def)

lemma sameProcess_refl [simp]: "sameProcess s s"
  by (simp add: sameProcess_def)

lemma sameProcess_trans: "sameProcess a b \<Longrightarrow> sameProcess b c \<Longrightarrow> sameProcess a c"
  by (simp add: sameProcess_def)

lemma sameProcess_update [simp]:
  "sameProcess s (s'\<lparr>projectFiles := pf\<rparr>) = sameProcess s s'"
  "sameProcess s (s'\<lparr>entityFiles := ef\<rparr>) = sameProcess s s'"
  "sameProcess s (s'\<lparr>consoleErrors := ce\<rparr>) = sameProcess s s'"
  by (simp_all add: sameProcess_def)

lemma sameProcess_getDataDir: "sameProcess s s' \<Longrightarrow> getDataDir s' = getDataDir s"
  by (simp add: sameProcess_def getDataDir_def split: option.splits)

lemma sameProcess_cached:
  "sameProcess s s' \<Longrightarrow> initializedDataDir s = Some (getDataDir s) \<Longrightarrow>
   initializedDataDir s' = Some (getDataDir s')"
  by (simp add: sameProcess_getDataDir) (simp add: sameProcess_def)

lemma sameProcess_getProject [simp]: "sameProcess (ensureDirectories s) (snd (getProject s i))"
  by simp

lemma sameProcess_getEntity [simp]: "sameProcess (ensureDirectories s) (snd (getEntity s i))"
  by simp

lemma sameProcess_createProject [simp]:
  "sameProcess (ensureDirectories s) (snd (createProject s n d g i t1 t2))"
  by (simp add: createProject_def Let_def)

lemma sameProcess_updateProject [simp]:
  "sameProcess (ensureDirectories s) (snd (updateProject s p t))"
  by (simp add: updateProject_eq)

lemma sameProcess_updateEntity [simp]:
  "sameProcess (ensureDirectories s) (snd (updateEntity s e t))"
  by (simp add: updateEntity_def Let_def)

lemma sameProcess_createEntity [simp]:
  "sameProcess (ensureDirectories s) (snd (createEntity s i pl n t1 t2 t3))"
  by (auto simp: createEntity_def Let_def updateProject_eq
      split: prod.splits sum.splits option.splits dest!: getProject_state)

lemma sameProcess_deleteEntity [simp]:
  "sameProcess (ensureDirectories s) (snd (deleteEntity s i t))"
  by (auto simp: deleteEntity_def Let_def updateProject_eq
      split: prod.splits sum.splits option.splits dest!: getProject_state getEntity_state)

lemma getEntities_state: "getEntities s ids = (r, s') \<Longrightarrow> s' = s \<or> s' = ensureDirectories s"
proof (induction ids arbitrary: s r s')
  case Nil
  then show ?case by simp
next
  case (Cons i ids)
  then show ?case
    by (fastforce split: prod.splits sum.splits dest!: getEntity_state)
qed

lemma sameProcess_listEntitiesByProject [simp]:
  "sameProcess (ensureDirectories s) (snd (listEntitiesByProject s i))"
  by (auto simp: listEntitiesByProject_def Let_def
      split: prod.splits sum.splits option.splits dest!: getProject_state getEntities_state)

lemma listEntitiesByProject_state:
  "listEntitiesByProject s i = (r, s') \<Longrightarrow> s' = ensureDirectories s"
  by (auto simp: listEntitiesByProject_def Let_def
      split: prod.splits sum.splits option.splits dest!: getProject_state getEntities_state)

lemma listEntitiesByType_state:
  "listEntitiesByType s i ty = (r, s') \<Longrightarrow> s' = ensureDirectories s"
  by (auto simp: listEntitiesByType_def split: prod.splits sum.splits
      dest!: listEntitiesByProject_state)

lemma exportProjectToJson_state:
  "exportProjectToJson s i = (r, s') \<Longrightarrow> s' = ensureDirectories s"
  by (auto simp: exportProjectToJson_def split: prod.splits sum.splits option.splits
      dest!: listEntitiesByProject_state getProject_state)

lemma exportProjectToMarkdown_state:
  "exportProjectToMarkdown ns nt s i = (r, s') \<Longrightarrow> s' = ensureDirectories s"
  by (auto simp: exportProjectToMarkdown_def split: prod.splits sum.splits option.splits
      dest!: listEntitiesByProject_state getProject_state)

lemma readProjectFiles_state:
  "sameProcess s (snd (readProjectFiles s fs)) \<and>
   projectFiles (snd (readProjectFiles s fs)) = projectFiles s \<and>
   entityFiles (snd (readProjectFiles s fs)) = entityFiles s"
proof (induction fs arbitrary: s)
  case Nil
  then show ?case by simp
next
  case (Cons f fs)
  obtain r s1 where step: "readProjectFile s f = (r, s1)"
    by (cases "readProjectFile s f")
  then have s1: "sameProcess s s1 \<and> projectFiles s1 = projectFiles s \<and> entityFiles s1 = entityFiles s"
    by (auto simp: readProjectFile_def split: sum.splits)
  with Cons [of s1] step show ?case
    by (auto simp: Let_def split: prod.splits intro: sameProcess_trans)
qed

lemma sameProcess_listProjects [simp]:
  "sameProcess (ensureDirectories s) (snd (listProjects s files))"
  using readProjectFiles_state [of "ensureDirectories s" "filter (\<lambda>f. endsWith f ''.json'') files"]
  by (cases "readProjectFiles (ensureDirectories s) (filter (\<lambda>f. endsWith f ''.json'') files)")
     (simp add: listProjects_def Let_def)

lemma sameProcess_stepDelete:
  assumes "initializedDataDir s = Some (getDataDir s)"
  shows "sameProcess s (snd (stepDelete s t k))"
  using assms
  by (cases k)
     (auto simp: ensureDirectories_cached updateProject_eq
      split: prod.splits sum.splits option.splits dest!: getProject_state getEntity_state)

lemma sameProcess_runSchedule:
  assumes "initializedDataDir s = Some (getDataDir s)"
  shows "sameProcess s (snd (runSchedule s tasks rej sched))"
  using assms
proof (induction sched arbitrary: s tasks rej)
  case Nil
  then show ?case by simp
next
  case (Cons it sched)
  obtain i t where it: "it = (i, t)"
    by (cases it)
  show ?case
  proof (cases "i < length tasks")
    case False
    with Cons it show ?thesis by simp
  next
    case True
    obtain k1 s1 where step: "stepDelete s t (tasks ! i) = (k1, s1)"
      by (cases "stepDelete s t (tasks ! i)")
    with sameProcess_stepDelete [OF Cons.prems, of t "tasks ! i"]
    have same: "sameProcess s s1"
      by simp
    then have "initializedDataDir s1 = Some (getDataDir s1)"
      using Cons.prems by (rule sameProcess_cached)
    from Cons.IH [OF this] same it True step show ?thesis
      by (auto simp: Let_def intro: sameProcess_trans)
  qed
qed

lemma runSchedule_state:
  "runSchedule (ensureDirectories s) tasks rej sched = (r, s') \<Longrightarrow>
   sameProcess (ensureDirectories s) s'"
  using sameProcess_runSchedule [of "ensureDirectories s" tasks rej sched] by simp

lemma sameProcess_deleteProject [simp]:
  "sameProcess (ensureDirectories s) (snd (deleteProject s i sched))"
  by (auto simp: deleteProject_def Let_def
      split: prod.splits sum.splits option.splits dest!: getProject_state runSchedule_state)

lemma sameProcess_perform: "sameProcess (ensureDirectories s) (perform s c)"
proof (cases c)
  case (ListEntitiesByType i ty)
  then show ?thesis
    using listEntitiesByType_state [of s i ty] by (cases "listEntitiesByType s i ty") simp
next
  case (ExportProjectToJson i)
  then show ?thesis
    using exportProjectToJson_state [of s i] by (cases "exportProjectToJson s i") simp
next
  case (ExportProjectToMarkdown ns nt i)
  then show ?thesis
    using exportProjectToMarkdown_state [of ns nt s i]
    by (cases "exportProjectToMarkdown ns nt s i") simp
qed simp_all
subsection \<open>Records stay under their own ids\<close>

lemma storedUnderOwnId_cong:
  "projectFiles s' = projectFiles s \<Longrightarrow> entityFiles s' = entityFiles s \<Longrightarrow>
   storedUnderOwnId s' = storedUnderOwnId s"
  by (simp add: storedUnderOwnId_def)

lemma storedUnderOwnId_ensureDirectories [simp]:
  "storedUnderOwnId (ensureDirectories s) = storedUnderOwnId s"
  by (simp add: storedUnderOwnId_def)

lemma storedUnderOwnId_consoleErrors [simp]:
  "storedUnderOwnId (s\<lparr>consoleErrors := ce\<rparr>) = storedUnderOwnId s"
  by (simp add: storedUnderOwnId_def)

lemma storedUnderOwnId_write_project:
  "storedUnderOwnId s \<Longrightarrow> p_id p = i \<Longrightarrow> projectFiles s = projectFiles s0 \<Longrightarrow>
   storedUnderOwnId (s\<lparr>projectFiles := (projectFiles s0)(projectPath s' i \<mapsto> Json p)\<rparr>)"
  by (simp add: storedUnderOwnId_def projectPath_def)

lemma storedUnderOwnId_write_entity:
  "storedUnderOwnId s \<Longrightarrow> e_id e = i \<Longrightarrow> entityFiles s = entityFiles s0 \<Longrightarrow>
   storedUnderOwnId (s\<lparr>entityFiles := (entityFiles s0)(entityPath s' i \<mapsto> Json e)\<rparr>)"
  by (simp add: storedUnderOwnId_def entityPath_def)

lemma storedUnderOwnId_unlink_entity:
  "storedUnderOwnId s \<Longrightarrow> storedUnderOwnId (s\<lparr>entityFiles := (entityFiles s)(k := None)\<rparr>)"
  by (simp add: storedUnderOwnId_def)

lemma storedUnderOwnId_unlink_project:
  "storedUnderOwnId s \<Longrightarrow> storedUnderOwnId (s\<lparr>projectFiles := (projectFiles s)(k := None)\<rparr>)"
  by (simp add: storedUnderOwnId_def)

lemma storedUnderOwnId_freshStore: "storedUnderOwnId freshStore"
  by (simp add: storedUnderOwnId_def freshStore_def)

lemma storedUnderOwnId_createProject:
  "storedUnderOwnId s \<Longrightarrow> storedUnderOwnId (snd (createProject s n d g i t1 t2))"
  by (simp add: createProject_def Let_def storedUnderOwnId_write_project)

lemma storedUnderOwnId_updateProject:
  "storedUnderOwnId s \<Longrightarrow> storedUnderOwnId (snd (updateProject s p t))"
  by (simp add: updateProject_eq storedUnderOwnId_write_project)

lemma storedUnderOwnId_updateEntity:
  "storedUnderOwnId s \<Longrightarrow> storedUnderOwnId (snd (updateEntity s e t))"
  by (simp add: updateEntity_def Let_def storedUnderOwnId_write_entity)

lemma storedUnderOwnId_createEntity:
  assumes "storedUnderOwnId s"
  shows "storedUnderOwnId (snd (createEntity s i pl n t1 t2 t3))"
proof (cases "getProject (ensureDirectories s) i")
  case (Pair r s2)
  then have s2: "s2 = ensureDirectories s"
    by (auto dest!: getProject_state)
  show ?thesis
  proof (cases r)
    case (Inl err)
    with Pair s2 assms show ?thesis
      by (simp add: createEntity_def Let_def)
  next
    case (Inr found)
    show ?thesis
    proof (cases found)
      case None
      with Pair Inr s2 assms show ?thesis
        by (simp add: createEntity_def Let_def)
    next
      case (Some P)
      let ?E = "\<lparr>e_id = n, e_projectId = i, e_createdAt = t1, e_updatedAt = t2,
                 e_researchMetadata = pl_researchMetadata pl, e_name = pl_name pl,
                 e_description = pl_description pl, e_body = pl_body pl\<rparr>"
      let ?s3 = "(ensureDirectories s)\<lparr>entityFiles :=
                   (entityFiles s)(entityPath s (e_id ?E) \<mapsto> Json ?E)\<rparr>"
      have "storedUnderOwnId ?s3"
        using assms by (simp add: storedUnderOwnId_write_entity)
      then have "storedUnderOwnId (snd (updateProject ?s3
          (P\<lparr>p_entities := p_entities P @ [\<lparr>ref_id = n, ref_type = e_type ?E\<rparr>]\<rparr>) t3))"
        by (rule storedUnderOwnId_updateProject)
      with Pair Inr Some s2 show ?thesis
        by (simp add: createEntity_def Let_def case_prod_beta)
    qed
  qed
qed

lemma storedUnderOwnId_stepDelete:
  "storedUnderOwnId s \<Longrightarrow> storedUnderOwnId (snd (stepDelete s t k))"
proof (cases k)
  case (AwaitUpdateProject i p)
  assume "storedUnderOwnId s"
  with AwaitUpdateProject show ?thesis
    by (simp add: storedUnderOwnId_updateProject)
next
  case (AwaitUnlink i)
  assume "storedUnderOwnId s"
  with AwaitUnlink show ?thesis
    by (auto simp: unlink_def storedUnderOwnId_unlink_entity split: option.splits)
qed (auto split: prod.splits sum.splits option.splits dest!: getProject_state getEntity_state)

lemma storedUnderOwnId_deleteEntity:
  assumes "storedUnderOwnId s"
  shows "storedUnderOwnId (snd (deleteEntity s i t))"
proof -
  obtain k1 s1 where 1: "stepDelete s t (AwaitGetEntity i) = (k1, s1)"
    by (cases "stepDelete s t (AwaitGetEntity i)")
  obtain k2 s2 where 2: "stepDelete s1 t k1 = (k2, s2)"
    by (cases "stepDelete s1 t k1")
  obtain k3 s3 where 3: "stepDelete s2 t k2 = (k3, s3)"
    by (cases "stepDelete s2 t k2")
  have "storedUnderOwnId s1"
    using storedUnderOwnId_stepDelete [OF assms, of t "AwaitGetEntity i"] 1 by simp
  then have "storedUnderOwnId s2"
    using storedUnderOwnId_stepDelete [of s1 t k1] 2 by simp
  then have "storedUnderOwnId s3"
    using storedUnderOwnId_stepDelete [of s2 t k2] 3 by simp
  then have "storedUnderOwnId (snd (stepDelete s3 t k3))"
    by (rule storedUnderOwnId_stepDelete)
  moreover have "stepDelete s3 t k3 = (Settled (fst (deleteEntity s i t)), snd (deleteEntity s i t))"
    using deleteEntity_steps [of s t i] 1 2 3 by (simp add: Let_def)
  ultimately show ?thesis
    by simp
qed

lemma storedUnderOwnId_runSchedule:
  "storedUnderOwnId s \<Longrightarrow> storedUnderOwnId (snd (runSchedule s tasks rej sched))"
proof (induction sched arbitrary: s tasks rej)
  case Nil
  then show ?case by simp
next
  case (Cons it sched)
  obtain i t where it: "it = (i, t)"
    by (cases it)
  show ?case
  proof (cases "i < length tasks")
    case False
    with Cons it show ?thesis by simp
  next
    case True
    obtain k1 s1 where step: "stepDelete s t (tasks ! i) = (k1, s1)"
      by (cases "stepDelete s t (tasks ! i)")
    with storedUnderOwnId_stepDelete [OF Cons.prems, of t "tasks ! i"]
    have "storedUnderOwnId s1"
      by simp
    from Cons.IH [OF this] it True step show ?thesis
      by (simp add: Let_def)
  qed
qed

lemma storedUnderOwnId_deleteProject:
  assumes "storedUnderOwnId s"
  shows "storedUnderOwnId (snd (deleteProject s i sched))"
proof -
  have run: "storedUnderOwnId (snd (runSchedule (ensureDirectories s) tasks None sched))"
    for tasks :: "'a deleteTask list"
    using assms by (simp add: storedUnderOwnId_runSchedule)
  have "storedUnderOwnId s'" if "runSchedule (ensureDirectories s) tasks None sched = (r, s')"
    for tasks :: "'a deleteTask list" and r s'
    using run [of tasks] that by simp
  then show ?thesis
    using assms
    by (auto simp: deleteProject_def Let_def unlink_def storedUnderOwnId_unlink_project
        split: prod.splits sum.splits option.splits dest!: getProject_state)
qed

lemma storedUnderOwnId_perform:
  assumes "storedUnderOwnId s"
  shows "storedUnderOwnId (perform s c)"
proof -
  have same: "storedUnderOwnId s'" if "s' = ensureDirectories s" for s'
    using that assms by simp
  show ?thesis
  proof (cases c)
    case (ListProjects files)
    then show ?thesis
      using readProjectFiles_state [of "ensureDirectories s" "filter (\<lambda>f. endsWith f ''.json'') files"] assms
      by (cases "readProjectFiles (ensureDirectories s) (filter (\<lambda>f. endsWith f ''.json'') files)")
         (simp add: listProjects_def Let_def storedUnderOwnId_def)
  next
    case (ListEntitiesByProject i)
    then show ?thesis
      using same listEntitiesByProject_state [of s i] by (cases "listEntitiesByProject s i") simp
  next
    case (ListEntitiesByType i ty)
    then show ?thesis
      using same listEntitiesByType_state [of s i ty] by (cases "listEntitiesByType s i ty") simp
  next
    case (ExportProjectToJson i)
    then show ?thesis
      using same exportProjectToJson_state [of s i] by (cases "exportProjectToJson s i") simp
  next
    case (ExportProjectToMarkdown ns nt i)
    then show ?thesis
      using same exportProjectToMarkdown_state [of ns nt s i]
      by (cases "exportProjectToMarkdown ns nt s i") simp
  qed (simp_all add: assms storedUnderOwnId_createProject storedUnderOwnId_updateProject
        storedUnderOwnId_updateEntity storedUnderOwnId_createEntity storedUnderOwnId_deleteEntity
        storedUnderOwnId_deleteProject)
qed

text \<open>
  Whatever a process does to a store whose files were written by the store, the files
  stay under the ids of their records.
\<close>

lemma storedUnderOwnId_run: "storedUnderOwnId s \<Longrightarrow> storedUnderOwnId (run s events)"
proof (induction events arbitrary: s)
  case Nil
  then show ?case by simp
next
  case (Cons e events)
  have "storedUnderOwnId (occur s e)"
  proof (cases e)
    case (Call c)
    with Cons.prems show ?thesis
      by (simp add: storedUnderOwnId_perform)
  next
    case ResetDirectoryInit
    with Cons.prems show ?thesis
      by (simp add: resetDirectoryInit_def storedUnderOwnId_def)
  next
    case (SetDataDir d)
    with Cons.prems show ?thesis
      by (simp add: storedUnderOwnId_def)
  qed
  then show ?case
    using Cons.IH by simp
qed
subsection \<open>The example process\<close>

lemmas path_defs =
  getDataDir_def getProjectsDir_def getEntitiesDir_def join_def projectPath_def entityPath_def

lemma freshStore_dirs [simp]:
  "getDataDir freshStore = ''/data''"
  "getProjectsDir freshStore = ''/data/projects''"
  "getEntitiesDir freshStore = ''/data/entities''"
  by (simp_all add: freshStore_def path_defs)

lemma demoProject_eq:
  "demoProject = \<lparr>p_id = ''p1'', p_name = ''Export Test'', p_description = Some ''Test description'',
     p_createdAt = 1000, p_updatedAt = 1000, p_tags = None, p_entities = []\<rparr>"
  by (simp add: demoProject_def createProject_def Let_def)

lemma oneProject_eq:
  "oneProject = freshStore\<lparr>
     mkdirCalls := [''/data/projects'', ''/data/entities''],
     initializedDataDir := Some ''/data'',
     projectFiles := (\<lambda>p. None)((''/data/projects'', ''p1.json'') \<mapsto> Json demoProject)\<rparr>"
  by (simp add: oneProject_def demoProject_eq createProject_def Let_def ensureDirectories_def
      freshStore_def path_defs)

lemma oneProject_dirs [simp]:
  "getDataDir oneProject = ''/data''"
  "getProjectsDir oneProject = ''/data/projects''"
  "getEntitiesDir oneProject = ''/data/entities''"
  by (simp_all add: oneProject_eq)

lemma oneProject_file:
  "projectFiles oneProject (projectPath oneProject ''p1'') = Some (Json demoProject)"
  by (simp add: projectPath_def) (simp add: oneProject_eq)

lemma oneProject_cached: "ensureDirectories oneProject = oneProject"
  by (rule ensureDirectories_cached) (simp, simp add: oneProject_eq)

lemma oneEntity_eq:
  "oneEntity = oneProject\<lparr>
     entityFiles := (\<lambda>p. None)((''/data/entities'', ''e1.json'') \<mapsto> Json demoEntity),
     projectFiles := (\<lambda>p. None)((''/data/projects'', ''p1.json'') \<mapsto>
       Json (demoProject\<lparr>p_entities := [\<lparr>ref_id = ''e1'', ref_type = ConversionFunnelT\<rparr>],
                         p_updatedAt := 2001\<rparr>))\<rparr>"
  unfolding oneEntity_def
  apply (subst createEntity_Json [OF oneProject_file])
  apply (simp add: oneProject_cached demoEntity_def demoPayload_def projectPath_def entityPath_def)
  apply (simp add: oneProject_eq freshStore_def demoProject_eq)
  done

lemma oneEntity_dirs [simp]:
  "getDataDir oneEntity = ''/data''"
  "getProjectsDir oneEntity = ''/data/projects''"
  "getEntitiesDir oneEntity = ''/data/entities''"
  "ensureDirectories oneEntity = oneEntity"
  by (simp_all add: oneEntity_eq oneProject_cached)

lemma oneEntity_files:
  "entityFiles oneEntity (entityPath oneEntity ''e1'') = Some (Json demoEntity)"
  "projectFiles oneEntity (projectPath oneEntity ''p1'') =
     Some (Json (demoProject\<lparr>p_entities := [\<lparr>ref_id = ''e1'', ref_type = ConversionFunnelT\<rparr>],
                         p_updatedAt := 2001\<rparr>))"
  "unlinkFault oneEntity = (\<lambda>p. None)"
  by (simp_all add: projectPath_def entityPath_def) (simp_all add: oneEntity_eq oneProject_eq freshStore_def)

subsection \<open>Not-found semantics\<close>





subsection \<open>Referential integrity on create\<close>

text \<open>
  Claim C1. Let the file of project id \<open>projectId\<close> hold the project \<open>P\<close> with that id.
  Then \<open>createEntity\<close> succeeds with an entity \<open>E\<close>, and afterwards \<open>getProject\<close>
  returns \<open>P\<close> with exactly one more reference, whose id and type are those of \<open>E\<close>,
  appended after the references \<open>P\<close> had, and \<open>getEntity\<close> of the new id returns
  \<open>E\<close>, whose \<open>projectId\<close> is \<open>projectId\<close>.
\<close>

theorem createEntity_referential_integrity:
  assumes "projectFiles s (projectPath s projectId) = Some (Json P)"
      and "p_id P = projectId"
  shows "\<exists>E s'. createEntity s projectId payload newId tCreated tUpdated tProject = (Inr E, s') \<and>
           getProject s' projectId =
             (Inr (Some (P\<lparr>p_entities := p_entities P @ [\<lparr>ref_id = e_id E, ref_type = e_type E\<rparr>],
                           p_updatedAt := tProject\<rparr>)), s') \<and>
           getEntity s' (e_id E) = (Inr (Some E), s') \<and>
           e_projectId E = projectId"
  using assms
  by (simp add: createEntity_Json getProject_Json getEntity_Json e_type_def)

theorem createEntity_referential_integrity_witness:
  "projectFiles oneProject (projectPath oneProject ''p1'') = Some (Json demoProject) \<and>
   p_id demoProject = ''p1'' \<and>
   (\<exists>E s'. createEntity oneProject ''p1'' demoPayload ''e1'' 2000 2000 2001 = (Inr E, s') \<and>
      getProject s' ''p1'' =
        (Inr (Some (demoProject\<lparr>p_entities := p_entities demoProject @
                                    [\<lparr>ref_id = e_id E, ref_type = e_type E\<rparr>],
                                  p_updatedAt := 2001\<rparr>)), s') \<and>
      getEntity s' (e_id E) = (Inr (Some E), s') \<and>
      e_projectId E = ''p1'')"
proof -
  have own: "p_id demoProject = ''p1''"
    by (simp add: demoProject_eq)
  show ?thesis
    using oneProject_file own
      createEntity_referential_integrity [OF oneProject_file own, of demoPayload "''e1''" 2000 2000 2001]
    by blast
qed

subsection \<open>Deleting an entity\<close>


lemma pinned_files:
  "entityFiles pinned (entityPath pinned ''e1'') = Some (Json demoEntity)"
  "projectFiles pinned (projectPath pinned (e_projectId demoEntity)) =
     Some (Json (demoProject\<lparr>p_entities := [\<lparr>ref_id = ''e1'', ref_type = ConversionFunnelT\<rparr>],
                         p_updatedAt := 2001\<rparr>))"
  "unlinkFault pinned (entityPath pinned ''e1'') = Some ''EPERM''"
  using oneEntity_files by (simp_all add: pinned_def demoEntity_def) (simp add: entityPath_def)



text \<open>
  Claim C9. Deleting an entity is not atomic on error. When the entity file and the file of
  its owning project both hold records and the final unlink fails with an errno code other
  than \<^verbatim>\<open>ENOENT\<close>, \<open>deleteEntity\<close> throws \<open>DELETE_FAILED\<close>, but the project has
  already been written back without the references to the entity, while the entity can
  still be read: it is left as an orphan, and where the project did refer to it the
  project files are no longer what they were.
\<close>

theorem deleteEntity_not_atomic:
  assumes "entityFiles s (entityPath s entityId) = Some (Json e)"
      and "projectFiles s (projectPath s (e_projectId e)) = Some (Json p)"
      and "unlinkFault s (entityPath s entityId) = Some c"
      and "c \<noteq> ''ENOENT''"
  shows "\<exists>s' p'. deleteEntity s entityId t =
           (Inl (StorageError (''Failed to delete entity '' @ entityId) DELETE_FAILED
                  (ErrnoException c)), s') \<and>
         getProject s' (p_id p) = (Inr (Some p'), s') \<and>
         p' = p\<lparr>p_entities := filter (\<lambda>r. ref_id r \<noteq> entityId) (p_entities p), p_updatedAt := t\<rparr> \<and>
         entityId \<notin> ref_id ` set (p_entities p') \<and>
         getEntity s' entityId = (Inr (Some e), s') \<and>
         (p_id p = e_projectId e \<and> entityId \<in> ref_id ` set (p_entities p) \<longrightarrow>
            projectFiles s' \<noteq> projectFiles s)"
proof -
  let ?p' = "p\<lparr>p_entities := filter (\<lambda>r. ref_id r \<noteq> entityId) (p_entities p), p_updatedAt := t\<rparr>"
  let ?s' = "(ensureDirectories s)\<lparr>projectFiles :=
               (projectFiles s)(projectPath s (p_id p) \<mapsto> Json ?p')\<rparr>"
  have run: "deleteEntity s entityId t =
      (Inl (StorageError (''Failed to delete entity '' @ entityId) DELETE_FAILED
             (ErrnoException c)), ?s')"
    using assms by (rule deleteEntity_unlink_fails)
  have proj: "getProject ?s' (p_id p) = (Inr (Some ?p'), ?s')"
    by (simp add: getProject_Json)
  have ent: "getEntity ?s' entityId = (Inr (Some e), ?s')"
    using assms(1) by (simp add: getEntity_Json)
  have gone: "entityId \<notin> ref_id ` set (p_entities ?p')"
    by auto
  have changed: "projectFiles ?s' \<noteq> projectFiles s"
    if own: "p_id p = e_projectId e" and ref: "entityId \<in> ref_id ` set (p_entities p)"
  proof
    assume "projectFiles ?s' = projectFiles s"
    then have "projectFiles ?s' (projectPath s (p_id p)) = projectFiles s (projectPath s (p_id p))"
      by simp
    with assms(2) own have "?p' = p"
      by simp
    then have "p_entities ?p' = p_entities p"
      by simp
    with gone ref show False
      by simp
  qed
  show ?thesis
    using run proj ent gone changed by blast
qed

theorem deleteEntity_not_atomic_witness:
  "entityFiles pinned (entityPath pinned ''e1'') = Some (Json demoEntity) \<and>
   projectFiles pinned (projectPath pinned (e_projectId demoEntity)) =
     Some (Json (demoProject\<lparr>p_entities := [\<lparr>ref_id = ''e1'', ref_type = ConversionFunnelT\<rparr>],
                         p_updatedAt := 2001\<rparr>)) \<and>
   unlinkFault pinned (entityPath pinned ''e1'') = Some ''EPERM'' \<and>
   ''EPERM'' \<noteq> ''ENOENT'' \<and>
   (\<exists>s' p'. deleteEntity pinned ''e1'' 3000 =
        (Inl (StorageError (''Failed to delete entity '' @ ''e1'') DELETE_FAILED
               (ErrnoException ''EPERM'')), s') \<and>
      getProject s' ''p1'' = (Inr (Some p'), s') \<and>
      ''e1'' \<notin> ref_id ` set (p_entities p') \<and>
      getEntity s' ''e1'' = (Inr (Some demoEntity), s') \<and>
      projectFiles s' \<noteq> projectFiles pinned)"
proof -
  have code: "''EPERM'' \<noteq> ''ENOENT''"
    by simp
  have own: "p_id (demoProject\<lparr>p_entities := [\<lparr>ref_id = ''e1'', ref_type = ConversionFunnelT\<rparr>],
                         p_updatedAt := 2001\<rparr>) = ''p1''"
       "e_projectId demoEntity = ''p1''"
       "''e1'' \<in> ref_id ` set (p_entities (demoProject\<lparr>p_entities :=
           [\<lparr>ref_id = ''e1'', ref_type = ConversionFunnelT\<rparr>], p_updatedAt := 2001\<rparr>))"
    by (simp_all add: demoProject_eq demoEntity_def)
  show ?thesis
    using pinned_files code own
      deleteEntity_not_atomic [OF pinned_files code, of 3000]
    by (simp only: own) blast
qed

subsection \<open>Listing the entities of a project\<close>

text \<open>What a reference resolves to when its file is absent or holds a record.\<close>

lemma getEntities_sound:
  "getEntities s ids = (Inr rs, s') \<Longrightarrow> Some e \<in> set rs \<Longrightarrow>
   \<exists>i\<in>set ids. entityFiles s (entityPath s i) = Some (Json e)"
proof (induction ids arbitrary: s rs s')
  case Nil
  then show ?case by simp
next
  case (Cons i ids)
  from Cons.prems(1) obtain r rs' where
    r: "getEntity s i = (Inr r, ensureDirectories s)" and
    rest: "getEntities (ensureDirectories s) ids = (Inr rs', s')" and
    rs: "rs = r # rs'"
    by (auto split: prod.splits sum.splits dest!: getEntity_state)
  from Cons.prems(2) rs consider "r = Some e" | "Some e \<in> set rs'"
    by auto
  then show ?case
  proof cases
    case 1
    with r have "entityFiles s (entityPath s i) = Some (Json e)"
      by (auto simp: getEntity_def Let_def split: sum.splits if_splits option.splits fileContent.splits
          elim!: readJson.elims)
    then show ?thesis by simp
  next
    case 2
    from Cons.IH [OF rest 2] show ?thesis by simp
  qed
qed

lemma getEntities_readable:
  assumes "\<forall>i\<in>set ids. entityFiles s (entityPath s i) = None \<or>
             (\<exists>e. entityFiles s (entityPath s i) = Some (Json e))"
  shows "getEntities (ensureDirectories s) ids =
     (Inr (map (\<lambda>i. case entityFiles s (entityPath s i) of Some (Json e) \<Rightarrow> Some e | _ \<Rightarrow> None) ids),
      ensureDirectories s)"
  using assms
proof (induction ids)
  case Nil
  then show ?case by simp
next
  case (Cons i ids)
  then have rest: "getEntities (ensureDirectories s) ids =
     (Inr (map (\<lambda>i. case entityFiles s (entityPath s i) of Some (Json e) \<Rightarrow> Some e | _ \<Rightarrow> None) ids),
      ensureDirectories s)"
    by simp
  from Cons.prems have "entityFiles s (entityPath s i) = None \<or>
      (\<exists>e. entityFiles s (entityPath s i) = Some (Json e))"
    by simp
  then show ?case
  proof
    assume "entityFiles s (entityPath s i) = None"
    then show ?thesis
      using rest by (simp add: getEntity_absent)
  next
    assume "\<exists>e. entityFiles s (entityPath s i) = Some (Json e)"
    then obtain e where "entityFiles s (entityPath s i) = Some (Json e)" ..
    then show ?thesis
      using rest by (simp add: getEntity_Json)
  qed
qed

lemma set_nonNull [simp]: "set (nonNull xs) = {x. Some x \<in> set xs}"
  by (induction xs rule: nonNull.induct) auto

lemma listEntitiesByProject_readable:
  assumes "projectFiles s (projectPath s projectId) = Some (Json P)"
      and "\<forall>r\<in>set (p_entities P). entityFiles s (entityPath s (ref_id r)) = None \<or>
             (\<exists>e. entityFiles s (entityPath s (ref_id r)) = Some (Json e))"
  shows "listEntitiesByProject s projectId =
     (Inr (nonNull (map (\<lambda>r. case entityFiles s (entityPath s (ref_id r)) of
                               Some (Json e) \<Rightarrow> Some e | _ \<Rightarrow> None) (p_entities P))),
      ensureDirectories s)"
proof -
  from assms(2) have "\<forall>i\<in>set (map ref_id (p_entities P)). entityFiles s (entityPath s i) = None \<or>
             (\<exists>e. entityFiles s (entityPath s i) = Some (Json e))"
    by auto
  from getEntities_readable [OF this] assms(1) show ?thesis
    by (simp add: listEntitiesByProject_def Let_def getProject_Json comp_def)
qed

text \<open>
  Claim C5. Let the store keep every record under its own id, let the file of
  \<open>projectId\<close> hold the project \<open>P\<close>, and let \<open>E\<close> be an entity whose file exists and
  whose \<open>projectId\<close> is \<open>projectId\<close>, but whose id is in no reference of \<open>P\<close>. Then
  \<open>getEntity\<close> still returns \<open>E\<close>, and no listing that \<open>listEntitiesByProject\<close>
  returns for the project contains \<open>E\<close>. Conversely, when every reference of \<open>P\<close>
  names a file that is missing or holds a record, the listing does not fail: it is the
  records of the references whose file exists, in the order of the references.
\<close>

theorem listEntitiesByProject_orphan:
  "(storedUnderOwnId s \<and>
    projectFiles s (projectPath s projectId) = Some (Json P) \<and>
    entityFiles s (entityPath s (e_id E)) = Some (Json E) \<and>
    e_projectId E = projectId \<and>
    e_id E \<notin> ref_id ` set (p_entities P) \<longrightarrow>
      getEntity s (e_id E) = (Inr (Some E), ensureDirectories s) \<and>
      (\<forall>es s'. listEntitiesByProject s projectId = (Inr es, s') \<longrightarrow> E \<notin> set es)) \<and>
   (projectFiles s (projectPath s projectId) = Some (Json P) \<and>
    (\<forall>r\<in>set (p_entities P). entityFiles s (entityPath s (ref_id r)) = None \<or>
        (\<exists>e. entityFiles s (entityPath s (ref_id r)) = Some (Json e))) \<longrightarrow>
      listEntitiesByProject s projectId =
        (Inr (nonNull (map (\<lambda>r. case entityFiles s (entityPath s (ref_id r)) of
                                  Some (Json e) \<Rightarrow> Some e | _ \<Rightarrow> None) (p_entities P))),
         ensureDirectories s))"
proof (intro conjI impI allI)
  assume h: "storedUnderOwnId s \<and>
    projectFiles s (projectPath s projectId) = Some (Json P) \<and>
    entityFiles s (entityPath s (e_id E)) = Some (Json E) \<and>
    e_projectId E = projectId \<and>
    e_id E \<notin> ref_id ` set (p_entities P)"
  then show "getEntity s (e_id E) = (Inr (Some E), ensureDirectories s)"
    by (simp add: getEntity_Json)
  fix es s'
  assume listed: "listEntitiesByProject s projectId = (Inr es, s')"
  show "E \<notin> set es"
  proof
    assume "E \<in> set es"
    with listed h obtain rs s'' where
      "getEntities (ensureDirectories s) (map ref_id (p_entities P)) = (Inr rs, s'')" and
      "Some E \<in> set rs"
      by (auto simp: listEntitiesByProject_def Let_def getProject_Json split: prod.splits sum.splits)
    from getEntities_sound [OF this]
    obtain r where r: "r \<in> set (p_entities P)" and
      "entityFiles s (entityPath s (ref_id r)) = Some (Json E)"
      by auto
    with h have "ref_id r @ ''.json'' = e_id E @ ''.json''"
      by (auto simp: storedUnderOwnId_def entityPath_def)
    then have "ref_id r = e_id E"
      by simp
    with r have "e_id E \<in> ref_id ` set (p_entities P)"
      by (metis imageI)
    with h show False
      by blast
  qed
next
  assume "projectFiles s (projectPath s projectId) = Some (Json P) \<and>
    (\<forall>r\<in>set (p_entities P). entityFiles s (entityPath s (ref_id r)) = None \<or>
        (\<exists>e. entityFiles s (entityPath s (ref_id r)) = Some (Json e)))"
  then show "listEntitiesByProject s projectId =
        (Inr (nonNull (map (\<lambda>r. case entityFiles s (entityPath s (ref_id r)) of
                                  Some (Json e) \<Rightarrow> Some e | _ \<Rightarrow> None) (p_entities P))),
         ensureDirectories s)"
    by (intro listEntitiesByProject_readable) simp_all
qed
lemma orphaned_facts:
  "storedUnderOwnId orphaned"
  "projectFiles orphaned (projectPath orphaned ''p1'') = Some (Json (demoProject\<lparr>p_updatedAt := 2500\<rparr>))"
  "entityFiles orphaned (entityPath orphaned ''e1'') = Some (Json demoEntity)"
proof -
  show "storedUnderOwnId orphaned"
    unfolding orphaned_def oneEntity_def oneProject_def
    by (intro storedUnderOwnId_updateProject storedUnderOwnId_createEntity
        storedUnderOwnId_createProject storedUnderOwnId_freshStore)
  show "projectFiles orphaned (projectPath orphaned ''p1'') =
      Some (Json (demoProject\<lparr>p_updatedAt := 2500\<rparr>))"
    by (simp add: orphaned_def updateProject_eq demoProject_eq)
  show "entityFiles orphaned (entityPath orphaned ''e1'') = Some (Json demoEntity)"
    using oneEntity_files(1) by (simp add: orphaned_def updateProject_eq)
qed

lemma dangling_facts:
  "projectFiles dangling (projectPath dangling ''p1'') =
     Some (Json (demoProject\<lparr>p_entities := [\<lparr>ref_id = ''gone'', ref_type = AidaFunnelT\<rparr>,
                                            \<lparr>ref_id = ''e1'', ref_type = ConversionFunnelT\<rparr>],
                         p_updatedAt := 2500\<rparr>))"
  "entityFiles dangling (entityPath dangling ''e1'') = Some (Json demoEntity)"
  "entityFiles dangling (entityPath dangling ''gone'') = None"
proof -
  show "projectFiles dangling (projectPath dangling ''p1'') =
     Some (Json (demoProject\<lparr>p_entities := [\<lparr>ref_id = ''gone'', ref_type = AidaFunnelT\<rparr>,
                                            \<lparr>ref_id = ''e1'', ref_type = ConversionFunnelT\<rparr>],
                         p_updatedAt := 2500\<rparr>))"
    by (simp add: dangling_def updateProject_eq demoProject_eq)
  show "entityFiles dangling (entityPath dangling ''e1'') = Some (Json demoEntity)"
    using oneEntity_files(1) by (simp add: dangling_def updateProject_eq)
  show "entityFiles dangling (entityPath dangling ''gone'') = None"
    by (simp add: dangling_def updateProject_eq entityPath_def)
       (simp add: oneEntity_eq oneProject_eq freshStore_def)
qed

theorem listEntitiesByProject_orphan_witness:
  "storedUnderOwnId orphaned \<and>
   projectFiles orphaned (projectPath orphaned ''p1'') =
     Some (Json (demoProject\<lparr>p_updatedAt := 2500\<rparr>)) \<and>
   entityFiles orphaned (entityPath orphaned (e_id demoEntity)) = Some (Json demoEntity) \<and>
   e_projectId demoEntity = ''p1'' \<and>
   e_id demoEntity \<notin> ref_id ` set (p_entities (demoProject\<lparr>p_updatedAt := 2500\<rparr>)) \<and>
   getEntity orphaned (e_id demoEntity) = (Inr (Some demoEntity), ensureDirectories orphaned) \<and>
   listEntitiesByProject orphaned ''p1'' = (Inr [], ensureDirectories orphaned) \<and>
   demoEntity \<notin> set [] \<and>
   projectFiles dangling (projectPath dangling ''p1'') =
     Some (Json (demoProject\<lparr>p_entities := [\<lparr>ref_id = ''gone'', ref_type = AidaFunnelT\<rparr>,
                                            \<lparr>ref_id = ''e1'', ref_type = ConversionFunnelT\<rparr>],
                         p_updatedAt := 2500\<rparr>)) \<and>
   entityFiles dangling (entityPath dangling ''gone'') = None \<and>
   entityFiles dangling (entityPath dangling ''e1'') = Some (Json demoEntity) \<and>
   listEntitiesByProject dangling ''p1'' = (Inr [demoEntity], ensureDirectories dangling)"
proof -
  let ?P = "demoProject\<lparr>p_updatedAt := 2500\<rparr>"
  let ?Q = "demoProject\<lparr>p_entities := [\<lparr>ref_id = ''gone'', ref_type = AidaFunnelT\<rparr>,
                                        \<lparr>ref_id = ''e1'', ref_type = ConversionFunnelT\<rparr>],
                        p_updatedAt := 2500\<rparr>"
  have ids: "e_id demoEntity = ''e1''" "e_projectId demoEntity = ''p1''"
    by (simp_all add: demoEntity_def)
  have norefs: "p_entities ?P = []"
    by (simp add: demoProject_eq)
  have unreferenced: "e_id demoEntity \<notin> ref_id ` set (p_entities ?P)"
    by (simp add: norefs)
  have refs: "\<forall>r\<in>set (p_entities ?Q).
      entityFiles dangling (entityPath dangling (ref_id r)) = None \<or>
      (\<exists>e. entityFiles dangling (entityPath dangling (ref_id r)) = Some (Json e))"
    by (simp add: dangling_facts)
  note orphan = listEntitiesByProject_orphan [of orphaned "''p1''" ?P demoEntity]
  note dangle = listEntitiesByProject_orphan [of dangling "''p1''" ?Q demoEntity]
  have 1: "getEntity orphaned (e_id demoEntity) = (Inr (Some demoEntity), ensureDirectories orphaned)"
    and 2: "\<forall>es s'. listEntitiesByProject orphaned ''p1'' = (Inr es, s') \<longrightarrow> demoEntity \<notin> set es"
    using orphan orphaned_facts ids unreferenced by simp_all
  have 3: "listEntitiesByProject orphaned ''p1'' = (Inr [], ensureDirectories orphaned)"
    using orphan orphaned_facts(2) norefs by simp
  from 2 3 have 4: "demoEntity \<notin> set []"
    by blast
  have 5: "listEntitiesByProject dangling ''p1'' = (Inr [demoEntity], ensureDirectories dangling)"
    using dangle dangling_facts refs by simp
  show ?thesis
    using orphaned_facts dangling_facts ids unreferenced 1 3 4 5 by simp
qed
subsection \<open>Directory initialisation\<close>

lemma getDataDir_cong:
  "envDataDir s' = envDataDir s \<Longrightarrow> cwd s' = cwd s \<Longrightarrow> getDataDir s' = getDataDir s"
  by (simp add: getDataDir_def split: option.splits)

lemma perform_cached:
  "initializedDataDir (perform s c) = Some (getDataDir (perform s c))"
  using sameProcess_cached [OF sameProcess_perform [of s c]] by simp

lemma run_calls:
  "cs \<noteq> [] \<Longrightarrow> sameProcess (ensureDirectories s) (run s (map Call cs))"
proof (induction cs arbitrary: s)
  case Nil
  then show ?case by simp
next
  case (Cons c cs)
  show ?case
  proof (cases "cs = []")
    case True
    then show ?thesis
      by (simp add: sameProcess_perform)
  next
    case False
    from Cons.IH [OF False, of "perform s c"]
    have "sameProcess (perform s c) (run (perform s c) (map Call cs))"
      by (simp add: ensureDirectories_cached perform_cached)
    with sameProcess_perform [of s c] show ?thesis
      by (auto intro: sameProcess_trans)
  qed
qed

lemma mkdirCalls_ensureDirectories:
  "mkdirCalls (ensureDirectories s) =
     (if initializedDataDir s = Some (getDataDir s) then mkdirCalls s
      else mkdirCalls s @ [getProjectsDir s, getEntitiesDir s])"
  by (simp add: ensureDirectories_def Let_def)

lemma mkdirCalls_perform: "mkdirCalls (perform s c) = mkdirCalls (ensureDirectories s)"
  using sameProcess_perform [of s c] by (simp add: sameProcess_def)

text \<open>
  Claim C3, as the code has it. The cache is the single variable
  \<open>initializedDataDir\<close>: it holds the root initialised last, not every root initialised
  so far. In a sequence of store operations during which the resolved root stays the same
  and no reset happens, the two directories are created at most once, by the first
  operation and only if the cache does not hold the root already; after the operations the
  cache holds the root. An operation under another root replaces the cache, so that when
  the root changes away and back the directories of the first root are created a second
  time; a change away and back with no operation in between creates nothing. After
  \<open>resetDirectoryInit\<close> the next operation creates them again.
\<close>

theorem directories_created_once_while_root_stays:
  "mkdirCalls (run s (map Call cs)) =
     (if cs = [] \<or> initializedDataDir s = Some (getDataDir s) then mkdirCalls s
      else mkdirCalls s @ [getProjectsDir s, getEntitiesDir s]) \<and>
   (cs \<noteq> [] \<longrightarrow> initializedDataDir (run s (map Call cs)) = Some (getDataDir s)) \<and>
   (getDataDir (s\<lparr>envDataDir := d\<rparr>) \<noteq> getDataDir s \<longrightarrow>
      mkdirCalls (run s [Call c1, SetDataDir d, Call c2, SetDataDir (envDataDir s), Call c3]) =
        mkdirCalls (perform s c1) @
        [getProjectsDir (s\<lparr>envDataDir := d\<rparr>), getEntitiesDir (s\<lparr>envDataDir := d\<rparr>)] @
        [getProjectsDir s, getEntitiesDir s]) \<and>
   mkdirCalls (run s [Call c1, SetDataDir d, SetDataDir (envDataDir s), Call c3]) =
     mkdirCalls (perform s c1) \<and>
   mkdirCalls (perform (resetDirectoryInit s) c) =
     mkdirCalls s @ [getProjectsDir s, getEntitiesDir s]"
proof (intro conjI impI)
  show "mkdirCalls (run s (map Call cs)) =
     (if cs = [] \<or> initializedDataDir s = Some (getDataDir s) then mkdirCalls s
      else mkdirCalls s @ [getProjectsDir s, getEntitiesDir s])"
  proof (cases "cs = []")
    case True
    then show ?thesis by simp
  next
    case False
    from run_calls [OF this, of s]
    have "mkdirCalls (run s (map Call cs)) = mkdirCalls (ensureDirectories s)"
      by (simp add: sameProcess_def)
    with False show ?thesis
      by (simp add: mkdirCalls_ensureDirectories)
  qed
next
  assume "cs \<noteq> []"
  from run_calls [OF this, of s]
  show "initializedDataDir (run s (map Call cs)) = Some (getDataDir s)"
    by (simp add: sameProcess_def)
next
  assume away: "getDataDir (s\<lparr>envDataDir := d\<rparr>) \<noteq> getDataDir s"
  let ?s1 = "perform s c1"
  let ?s2 = "perform (?s1\<lparr>envDataDir := d\<rparr>) c2"
  let ?s3 = "perform (?s2\<lparr>envDataDir := envDataDir s\<rparr>) c3"
  have p1: "sameProcess (ensureDirectories s) ?s1"
    by (rule sameProcess_perform)
  have p2: "sameProcess (ensureDirectories (?s1\<lparr>envDataDir := d\<rparr>)) ?s2"
    by (rule sameProcess_perform)
  have p3: "sameProcess (ensureDirectories (?s2\<lparr>envDataDir := envDataDir s\<rparr>)) ?s3"
    by (rule sameProcess_perform)
  have root1: "getDataDir (?s1\<lparr>envDataDir := d\<rparr>) = getDataDir (s\<lparr>envDataDir := d\<rparr>)"
    using p1 by (intro getDataDir_cong) (simp_all add: sameProcess_def)
  have ini1: "initializedDataDir ?s1 = Some (getDataDir s)"
    using p1 by (simp add: sameProcess_def)
  have m2: "mkdirCalls ?s2 = mkdirCalls ?s1 @
      [getProjectsDir (s\<lparr>envDataDir := d\<rparr>), getEntitiesDir (s\<lparr>envDataDir := d\<rparr>)]"
    using away root1 ini1
    by (simp add: mkdirCalls_perform mkdirCalls_ensureDirectories getProjectsDir_def
        getEntitiesDir_def)
  have ini2: "initializedDataDir ?s2 = Some (getDataDir (s\<lparr>envDataDir := d\<rparr>))"
    using p2 root1 by (simp add: sameProcess_def)
  have root2: "getDataDir (?s2\<lparr>envDataDir := envDataDir s\<rparr>) = getDataDir s"
    using p1 p2 by (intro getDataDir_cong) (simp_all add: sameProcess_def)
  have m3: "mkdirCalls ?s3 = mkdirCalls ?s2 @ [getProjectsDir s, getEntitiesDir s]"
    using away root2 ini2
    by (simp add: mkdirCalls_perform mkdirCalls_ensureDirectories getProjectsDir_def
        getEntitiesDir_def)
  show "mkdirCalls (run s [Call c1, SetDataDir d, Call c2, SetDataDir (envDataDir s), Call c3]) =
        mkdirCalls (perform s c1) @
        [getProjectsDir (s\<lparr>envDataDir := d\<rparr>), getEntitiesDir (s\<lparr>envDataDir := d\<rparr>)] @
        [getProjectsDir s, getEntitiesDir s]"
    by (simp add: m3 m2)
next
  let ?s1 = "perform s c1"
  have p1: "sameProcess (ensureDirectories s) ?s1"
    by (rule sameProcess_perform)
  then have restored: "?s1\<lparr>envDataDir := d\<rparr>\<lparr>envDataDir := envDataDir s\<rparr> = ?s1"
    by (simp add: sameProcess_def)
  have "mkdirCalls (perform ?s1 c3) = mkdirCalls ?s1"
    by (simp add: mkdirCalls_perform ensureDirectories_cached perform_cached)
  then show "mkdirCalls (run s [Call c1, SetDataDir d, SetDataDir (envDataDir s), Call c3]) =
      mkdirCalls (perform s c1)"
    by (simp add: restored)
next
  show "mkdirCalls (perform (resetDirectoryInit s) c) =
     mkdirCalls s @ [getProjectsDir s, getEntitiesDir s]"
    by (simp add: mkdirCalls_perform mkdirCalls_ensureDirectories resetDirectoryInit_def
        getProjectsDir_def getEntitiesDir_def)
qed

text \<open>
  Claim C3 as stated fails: in a process with no reset, three reads under the roots
  \<^verbatim>\<open>/data\<close>, \<^verbatim>\<open>/other\<close> and \<^verbatim>\<open>/data\<close> again create the directory
  \<^verbatim>\<open>/data/projects\<close> twice.
\<close>

theorem directories_created_twice_counterexample:
  "ResetDirectoryInit \<notin> set [Call (GetProject ''x''), SetDataDir (Some ''/other''),
       Call (GetProject ''x''), SetDataDir (Some ''/data''), Call (GetProject ''x'')] \<and>
   mkdirCalls (run freshStore
      [Call (GetProject ''x''), SetDataDir (Some ''/other''), Call (GetProject ''x''),
       SetDataDir (Some ''/data''), Call (GetProject ''x'')]) =
     [''/data/projects'', ''/data/entities'', ''/other/projects'', ''/other/entities'',
      ''/data/projects'', ''/data/entities''] \<and>
   count_list (mkdirCalls (run freshStore
      [Call (GetProject ''x''), SetDataDir (Some ''/other''), Call (GetProject ''x''),
       SetDataDir (Some ''/data''), Call (GetProject ''x'')])) ''/data/projects'' = 2"
  by (simp add: freshStore_def ensureDirectories_def Let_def path_defs)

theorem directories_created_once_while_root_stays_witness:
  "[GetProject ''p1'', GetEntity ''e1''] \<noteq> [] \<and>
   initializedDataDir (run freshStore (map Call [GetProject ''p1'', GetEntity ''e1''])) = Some ''/data'' \<and>
   mkdirCalls (run freshStore (map Call [GetProject ''p1'', GetEntity ''e1''])) =
     [''/data/projects'', ''/data/entities''] \<and>
   getDataDir (freshStore\<lparr>envDataDir := Some ''/other''\<rparr>) \<noteq> getDataDir freshStore \<and>
   mkdirCalls (run freshStore [Call (GetProject ''x''), SetDataDir (Some ''/other''),
       Call (GetProject ''x''), SetDataDir (envDataDir freshStore), Call (GetProject ''x'')]) =
     [''/data/projects'', ''/data/entities'', ''/other/projects'', ''/other/entities'',
      ''/data/projects'', ''/data/entities'']"
proof -
  have ne: "[GetProject ''p1'', GetEntity ''e1''] \<noteq> ([] :: nat call list)"
    by simp
  have away: "getDataDir (freshStore\<lparr>envDataDir := Some ''/other''\<rparr>) \<noteq> getDataDir freshStore"
    by (simp add: freshStore_def getDataDir_def)
  have fresh: "initializedDataDir freshStore \<noteq> Some (getDataDir freshStore)"
       "mkdirCalls freshStore = []"
       "mkdirCalls (perform freshStore (GetProject ''x'')) = [''/data/projects'', ''/data/entities'']"
       "getProjectsDir (freshStore\<lparr>envDataDir := Some ''/other''\<rparr>) = ''/other/projects''"
       "getEntitiesDir (freshStore\<lparr>envDataDir := Some ''/other''\<rparr>) = ''/other/entities''"
    by (simp_all add: mkdirCalls_ensureDirectories) (simp_all add: freshStore_def path_defs)
  from directories_created_once_while_root_stays
    [of freshStore "[GetProject ''p1'', GetEntity ''e1'']" "Some ''/other''"
      "GetProject ''x''" "GetProject ''x''" "GetProject ''x''"] ne away fresh
  show ?thesis
    by simp
qed
subsection \<open>Listing projects\<close>

text \<open>
  What the scan of the file names yields, and what it prints for the unusable files. The
  reads are concurrent; the lines on the console are taken in the order of the names.
\<close>

lemma readProjectFiles_eq:
  "readProjectFiles s fs =
     (map (\<lambda>f. case readJson (projectFiles s (getProjectsDir s, f)) of
                  Inr p \<Rightarrow> Some p | Inl err \<Rightarrow> None) fs,
      s\<lparr>consoleErrors := consoleErrors s @
           concat (map (\<lambda>f. case readJson (projectFiles s (getProjectsDir s, f)) of
                               Inr p \<Rightarrow> []
                             | Inl err \<Rightarrow> [(''Failed to read project file '' @ f @ '':'', err)]) fs)\<rparr>)"
proof (induction fs arbitrary: s)
  case Nil
  then show ?case by simp
next
  case (Cons f fs)
  show ?case
  proof (cases "readJson (projectFiles s (getProjectsDir s, f))")
    case (Inl err)
    then show ?thesis
      by (simp add: readProjectFile_def Cons Let_def)
  next
    case (Inr p)
    then show ?thesis
      by (simp add: readProjectFile_def Cons Let_def)
  qed
qed

lemma readJson_Inr_iff: "readJson x = Inr p \<longleftrightarrow> x = Some (Json p)"
  by (cases x rule: readJson.cases) auto

lemma nonNull_map_filter:
  "nonNull (map g xs) = map (\<lambda>x. the (g x)) (filter (\<lambda>x. g x \<noteq> None) xs)"
  by (induction xs) (auto split: option.splits)

lemma hd_of_descending:
  assumes "sorted_wrt (\<lambda>a b. f b \<le> f a) ps" and "p \<in> set ps"
      and "\<forall>q\<in>set ps. q \<noteq> p \<longrightarrow> f q < (f p :: int)"
  shows "hd ps = p"
proof (cases ps)
  case Nil
  with assms(2) show ?thesis by simp
next
  case (Cons q qs)
  show ?thesis
  proof (rule ccontr)
    assume "hd ps \<noteq> p"
    with Cons have qp: "q \<noteq> p" by simp
    with assms(2) Cons have "p \<in> set qs" by auto
    with assms(1) Cons have "f p \<le> f q" by auto
    moreover from assms(3) Cons qp have "f q < f p" by simp
    ultimately show False by simp
  qed
qed

lemma listProjects_eq:
  "listProjects s files =
     (sort_key (\<lambda>p. - p_updatedAt p)
        (nonNull (map (\<lambda>f. case readJson (projectFiles s (getProjectsDir s, f)) of
                             Inr p \<Rightarrow> Some p | Inl err \<Rightarrow> None)
                   (filter (\<lambda>f. endsWith f ''.json'') files))),
      (ensureDirectories s)\<lparr>consoleErrors := consoleErrors s @
           concat (map (\<lambda>f. case readJson (projectFiles s (getProjectsDir s, f)) of
                               Inr p \<Rightarrow> []
                             | Inl err \<Rightarrow> [(''Failed to read project file '' @ f @ '':'', err)])
                     (filter (\<lambda>f. endsWith f ''.json'') files))\<rparr>)"
  by (simp add: listProjects_def Let_def readProjectFiles_eq)

lemma listProjects_set:
  assumes "isReaddir s files"
  shows "set (fst (listProjects s files)) =
     {p. \<exists>f. endsWith f ''.json'' \<and> projectFiles s (getProjectsDir s, f) = Some (Json p)}"
proof -
  have "Some p \<in> (\<lambda>f. case readJson (projectFiles s (getProjectsDir s, f)) of
                             Inr p \<Rightarrow> Some p | Inl err \<Rightarrow> None) ` {f \<in> set files. endsWith f ''.json''}
     \<longleftrightarrow> (\<exists>f. endsWith f ''.json'' \<and> projectFiles s (getProjectsDir s, f) = Some (Json p))" for p
  proof
    assume "Some p \<in> (\<lambda>f. case readJson (projectFiles s (getProjectsDir s, f)) of
                             Inr p \<Rightarrow> Some p | Inl err \<Rightarrow> None) ` {f \<in> set files. endsWith f ''.json''}"
    then obtain f where "endsWith f ''.json''"
      and "readJson (projectFiles s (getProjectsDir s, f)) = Inr p"
      by (auto split: sum.splits)
    then show "\<exists>f. endsWith f ''.json'' \<and> projectFiles s (getProjectsDir s, f) = Some (Json p)"
      by (auto simp: readJson_Inr_iff)
  next
    assume "\<exists>f. endsWith f ''.json'' \<and> projectFiles s (getProjectsDir s, f) = Some (Json p)"
    then obtain f where f: "endsWith f ''.json''" "projectFiles s (getProjectsDir s, f) = Some (Json p)"
      by blast
    with assms have "f \<in> set files"
      by (simp add: isReaddir_def)
    with f show "Some p \<in> (\<lambda>f. case readJson (projectFiles s (getProjectsDir s, f)) of
                             Inr p \<Rightarrow> Some p | Inl err \<Rightarrow> None) ` {f \<in> set files. endsWith f ''.json''}"
      by (force simp: image_iff)
  qed
  then show ?thesis
    by (simp add: listProjects_eq)
qed

lemma listProjects_length:
  assumes "isReaddir s files"
  shows "length (fst (listProjects s files)) =
     card {f. endsWith f ''.json'' \<and> (\<exists>p. projectFiles s (getProjectsDir s, f) = Some (Json p))}"
proof -
  let ?g = "\<lambda>f. case readJson (projectFiles s (getProjectsDir s, f)) of
                  Inr p \<Rightarrow> Some p | Inl err \<Rightarrow> None"
  let ?ok = "filter (\<lambda>f. ?g f \<noteq> None) (filter (\<lambda>f. endsWith f ''.json'') files)"
  have g: "?g f \<noteq> None \<longleftrightarrow> (\<exists>p. projectFiles s (getProjectsDir s, f) = Some (Json p))" for f
    by (auto simp: readJson_Inr_iff [symmetric] split: sum.splits)
  have dist: "distinct ?ok"
    using assms by (simp add: isReaddir_def)
  have elems: "set ?ok =
      {f. endsWith f ''.json'' \<and> (\<exists>p. projectFiles s (getProjectsDir s, f) = Some (Json p))}"
  proof (intro set_eqI iffI)
    fix f
    assume "f \<in> set ?ok"
    then show "f \<in> {f. endsWith f ''.json'' \<and>
        (\<exists>p. projectFiles s (getProjectsDir s, f) = Some (Json p))}"
      using g [of f] by simp
  next
    fix f
    assume "f \<in> {f. endsWith f ''.json'' \<and>
        (\<exists>p. projectFiles s (getProjectsDir s, f) = Some (Json p))}"
    then have f: "endsWith f ''.json''" "\<exists>p. projectFiles s (getProjectsDir s, f) = Some (Json p)"
      by simp_all
    then have "f \<in> set files"
      using assms by (auto simp: isReaddir_def)
    with f show "f \<in> set ?ok"
      using g [of f] by simp
  qed
  have "length ?ok = card (set ?ok)"
    using distinct_card [OF dist] by simp
  then have "length ?ok =
      card {f. endsWith f ''.json'' \<and> (\<exists>p. projectFiles s (getProjectsDir s, f) = Some (Json p))}"
    by (simp only: elems)
  then show ?thesis
    by (simp add: listProjects_eq nonNull_map_filter)
qed

lemma listProjects_sorted:
  "sorted_wrt (\<lambda>a b. p_updatedAt b \<le> p_updatedAt a) (fst (listProjects s files))"
proof -
  have "sorted (map (\<lambda>p. - p_updatedAt p) (fst (listProjects s files)))"
    by (simp add: listProjects_eq)
  then show ?thesis
    by (simp add: sorted_map)
qed

lemma endsWith_json [simp]: "endsWith (i @ ''.json'') ''.json''"
  by (simp add: endsWith_def)
lemma listProjects_set_all:
  assumes "isReaddir s files" and "storedUnderOwnId s"
  shows "set (fst (listProjects s files)) =
     {p. \<exists>f. projectFiles s (getProjectsDir s, f) = Some (Json p)}"
proof -
  have "endsWith f ''.json''" if "projectFiles s (getProjectsDir s, f) = Some (Json p)" for f p
  proof -
    from assms(2) that have "f = p_id p @ ''.json''"
      unfolding storedUnderOwnId_def by blast
    then show ?thesis
      by simp
  qed
  then show ?thesis
    unfolding listProjects_set [OF assms(1)] by auto
qed

lemma createProject_eq:
  "createProject s n d g i c u =
     (\<lparr>p_id = i, p_name = n, p_description = d, p_createdAt = c, p_updatedAt = u, p_tags = g,
       p_entities = []\<rparr>,
      (ensureDirectories s)\<lparr>projectFiles := (projectFiles s)(projectPath s i \<mapsto>
         Json \<lparr>p_id = i, p_name = n, p_description = d, p_createdAt = c, p_updatedAt = u,
               p_tags = g, p_entities = []\<rparr>)\<rparr>)"
  by (simp add: createProject_def Let_def)

lemma listProjects_console:
  "map fst (consoleErrors (snd (listProjects s files))) =
     map fst (consoleErrors s) @
     map (\<lambda>f. ''Failed to read project file '' @ f @ '':'')
       (filter (\<lambda>f. endsWith f ''.json'' \<and>
                    (\<forall>p. projectFiles s (getProjectsDir s, f) \<noteq> Some (Json p))) files)"
proof -
  have "map fst (concat (map (\<lambda>f. case readJson (projectFiles s (getProjectsDir s, f)) of
                               Inr p \<Rightarrow> []
                             | Inl err \<Rightarrow> [(''Failed to read project file '' @ f @ '':'', err)]) fs)) =
        map (\<lambda>f. ''Failed to read project file '' @ f @ '':'')
          (filter (\<lambda>f. \<forall>p. projectFiles s (getProjectsDir s, f) \<noteq> Some (Json p)) fs)" for fs
    by (induction fs) (auto simp: readJson_Inr_iff [symmetric] split: sum.splits)
  then show ?thesis
    by (simp add: listProjects_eq filter_filter conj_commute del: map_append append_assoc)
      (simp add: conj_commute)
qed

lemma updated_last_is_first:
  assumes empty: "\<forall>f. projectFiles s0 (getProjectsDir s0, f) = None"
      and ids: "distinct [i1, i2, i3]"
      and late: "u2 < t" "u3 < t"
      and own: "p_id p = i1"
      and s4: "s4 = snd (updateProject (snd (createProject (snd (createProject
                  (snd (createProject s0 n1 d1 g1 i1 c1 u1)) n2 d2 g2 i2 c2 u2))
                  n3 d3 g3 i3 c3 u3)) p t)"
      and dir: "isReaddir s4 files"
  shows "hd (fst (listProjects s4 files)) = p\<lparr>p_updatedAt := t\<rparr>"
proof -
  let ?P2 = "\<lparr>p_id = i2, p_name = n2, p_description = d2, p_createdAt = c2, p_updatedAt = u2,
              p_tags = g2, p_entities = []\<rparr>"
  let ?P3 = "\<lparr>p_id = i3, p_name = n3, p_description = d3, p_createdAt = c3, p_updatedAt = u3,
              p_tags = g3, p_entities = []\<rparr>"
  let ?d = "getProjectsDir s0"
  have root: "getProjectsDir s4 = ?d"
    by (simp add: s4 updateProject_eq createProject_eq)
  have files4: "projectFiles s4 (?d, f) =
      (if f = i1 @ ''.json'' then Some (Json (p\<lparr>p_updatedAt := t\<rparr>))
       else if f = i3 @ ''.json'' then Some (Json ?P3)
       else if f = i2 @ ''.json'' then Some (Json ?P2)
       else None)" for f
    using empty own by (simp add: s4 updateProject_eq createProject_eq projectPath_def)
  let ?ps = "fst (listProjects s4 files)"
  have elems: "set ?ps = {q. \<exists>f. endsWith f ''.json'' \<and> projectFiles s4 (?d, f) = Some (Json q)}"
    using listProjects_set [OF dir] by (simp add: root)
  have "projectFiles s4 (?d, i1 @ ''.json'') = Some (Json (p\<lparr>p_updatedAt := t\<rparr>))"
    by (simp add: files4)
  then have mem: "p\<lparr>p_updatedAt := t\<rparr> \<in> set ?ps"
    unfolding elems using endsWith_json by blast
  have others: "\<forall>q\<in>set ?ps. q \<noteq> p\<lparr>p_updatedAt := t\<rparr> \<longrightarrow> p_updatedAt q < p_updatedAt (p\<lparr>p_updatedAt := t\<rparr>)"
  proof (intro ballI impI)
    fix q
    assume "q \<in> set ?ps" and other: "q \<noteq> p\<lparr>p_updatedAt := t\<rparr>"
    then obtain f where "projectFiles s4 (?d, f) = Some (Json q)"
      unfolding elems by blast
    with other have "q = ?P3 \<or> q = ?P2"
      by (auto simp: files4 split: if_splits)
    with late show "p_updatedAt q < p_updatedAt (p\<lparr>p_updatedAt := t\<rparr>)"
      by auto
  qed
  from hd_of_descending [OF listProjects_sorted mem others]
  show ?thesis .
qed
text \<open>
  Claim C7. Let \<open>files\<close> be what \<^verbatim>\<open>readdir\<close> returns for the projects directory. Then
  \<open>listProjects\<close> returns exactly the records of the \<^verbatim>\<open>*.json\<close> files that parse, one
  per file, in an order in which the \<open>updatedAt\<close> timestamps descend; a \<^verbatim>\<open>*.json\<close> file
  that does not parse is skipped, with one line on \<^verbatim>\<open>console.error\<close>, and the scan
  does not fail. In a store that keeps every record under its own id these are all the
  parsable project records of the directory. In particular, when three projects are created in an empty directory
  with timestamps \<open>u1 < u2 < u3\<close> and the first is then updated at a later time, the
  listing starts with the updated first project.
\<close>

theorem listProjects_recency_order:
  "(isReaddir s files \<longrightarrow>
      set (fst (listProjects s files)) =
        {p. \<exists>f. endsWith f ''.json'' \<and> projectFiles s (getProjectsDir s, f) = Some (Json p)} \<and>
      length (fst (listProjects s files)) =
        card {f. endsWith f ''.json'' \<and>
                 (\<exists>p. projectFiles s (getProjectsDir s, f) = Some (Json p))} \<and>
      sorted_wrt (\<lambda>a b. p_updatedAt b \<le> p_updatedAt a) (fst (listProjects s files)) \<and>
      map fst (consoleErrors (snd (listProjects s files))) =
        map fst (consoleErrors s) @
        map (\<lambda>f. ''Failed to read project file '' @ f @ '':'')
          (filter (\<lambda>f. endsWith f ''.json'' \<and>
                       (\<forall>p. projectFiles s (getProjectsDir s, f) \<noteq> Some (Json p))) files) \<and>
      (storedUnderOwnId s \<longrightarrow>
         set (fst (listProjects s files)) =
           {p. \<exists>f. projectFiles s (getProjectsDir s, f) = Some (Json p)})) \<and>
   ((\<forall>f. projectFiles s0 (getProjectsDir s0, f) = None) \<and>
    distinct [i1, i2, i3] \<and> u1 < u2 \<and> u2 < u3 \<and> u3 < t \<and> p_id p = i1 \<and>
    isReaddir
      (snd (updateProject (snd (createProject (snd (createProject
         (snd (createProject s0 n1 d1 g1 i1 c1 u1)) n2 d2 g2 i2 c2 u2)) n3 d3 g3 i3 c3 u3)) p t))
      files' \<longrightarrow>
      hd (fst (listProjects
        (snd (updateProject (snd (createProject (snd (createProject
           (snd (createProject s0 n1 d1 g1 i1 c1 u1)) n2 d2 g2 i2 c2 u2)) n3 d3 g3 i3 c3 u3)) p t))
        files')) = p\<lparr>p_updatedAt := t\<rparr>)"
proof (intro conjI impI)
  assume "(\<forall>f. projectFiles s0 (getProjectsDir s0, f) = None) \<and>
    distinct [i1, i2, i3] \<and> u1 < u2 \<and> u2 < u3 \<and> u3 < t \<and> p_id p = i1 \<and>
    isReaddir
      (snd (updateProject (snd (createProject (snd (createProject
         (snd (createProject s0 n1 d1 g1 i1 c1 u1)) n2 d2 g2 i2 c2 u2)) n3 d3 g3 i3 c3 u3)) p t))
      files'"
  then show "hd (fst (listProjects
        (snd (updateProject (snd (createProject (snd (createProject
           (snd (createProject s0 n1 d1 g1 i1 c1 u1)) n2 d2 g2 i2 c2 u2)) n3 d3 g3 i3 c3 u3)) p t))
        files')) = p\<lparr>p_updatedAt := t\<rparr>"
    by (intro updated_last_is_first [where ?u2.0 = u2 and ?u3.0 = u3]) auto
next
  assume "isReaddir s files" and "storedUnderOwnId s"
  then show "set (fst (listProjects s files)) =
      {p. \<exists>f. projectFiles s (getProjectsDir s, f) = Some (Json p)}"
    by (rule listProjects_set_all)
qed (simp_all only: listProjects_set listProjects_length listProjects_sorted listProjects_console)

lemma threeProjects_files:
  "getProjectsDir threeProjects = ''/data/projects''"
  "projectFiles threeProjects (''/data/projects'', f) =
     (if f = ''a.json'' then Some (Json \<lparr>p_id = ''a'', p_name = ''Project 1 Updated'',
          p_description = None, p_createdAt = 10, p_updatedAt = 40, p_tags = None, p_entities = []\<rparr>)
      else if f = ''c.json'' then Some (Json \<lparr>p_id = ''c'', p_name = ''Project 3'',
          p_description = None, p_createdAt = 30, p_updatedAt = 30, p_tags = None, p_entities = []\<rparr>)
      else if f = ''b.json'' then Some (Json \<lparr>p_id = ''b'', p_name = ''Project 2'',
          p_description = None, p_createdAt = 20, p_updatedAt = 20, p_tags = None, p_entities = []\<rparr>)
      else None)"
  by (simp_all add: threeProjects_def updateProject_eq createProject_eq projectPath_def)
     (simp add: freshStore_def)

theorem listProjects_recency_order_witness:
  "isReaddir withJunk [''b.json'', ''notes.txt'', ''junk.json'', ''a.json'', ''c.json''] \<and>
   storedUnderOwnId withJunk \<and>
   set (fst (listProjects withJunk
       [''b.json'', ''notes.txt'', ''junk.json'', ''a.json'', ''c.json''])) =
     {p. \<exists>f. projectFiles withJunk (getProjectsDir withJunk, f) = Some (Json p)} \<and>
   map p_name (fst (listProjects withJunk
       [''b.json'', ''notes.txt'', ''junk.json'', ''a.json'', ''c.json''])) =
     [''Project 1 Updated'', ''Project 3'', ''Project 2''] \<and>
   sorted_wrt (\<lambda>a b. p_updatedAt b \<le> p_updatedAt a)
     (fst (listProjects withJunk [''b.json'', ''notes.txt'', ''junk.json'', ''a.json'', ''c.json''])) \<and>
   length (fst (listProjects withJunk
       [''b.json'', ''notes.txt'', ''junk.json'', ''a.json'', ''c.json''])) =
     card {f. endsWith f ''.json'' \<and>
              (\<exists>p. projectFiles withJunk (getProjectsDir withJunk, f) = Some (Json p))} \<and>
   map fst (consoleErrors (snd (listProjects withJunk
       [''b.json'', ''notes.txt'', ''junk.json'', ''a.json'', ''c.json'']))) =
     [''Failed to read project file junk.json:''] \<and>
   (\<forall>f. projectFiles freshStore (getProjectsDir freshStore, f) = None) \<and>
   distinct [''a'', ''b'', ''c''] \<and> (10::int) < 20 \<and> (20::int) < 30 \<and> (30::int) < 40 \<and>
   p_id \<lparr>p_id = ''a'', p_name = ''Project 1 Updated'', p_description = None, p_createdAt = 10,
         p_updatedAt = 10, p_tags = None, p_entities = []\<rparr> = ''a'' \<and>
   isReaddir threeProjects [''b.json'', ''a.json'', ''c.json''] \<and>
   p_name (hd (fst (listProjects threeProjects [''b.json'', ''a.json'', ''c.json'']))) =
     ''Project 1 Updated''"
proof -
  let ?files = "[''b.json'', ''notes.txt'', ''junk.json'', ''a.json'', ''c.json'']"
  let ?p = "\<lparr>p_id = ''a'', p_name = ''Project 1 Updated'', p_description = None, p_createdAt = 10,
             p_updatedAt = 10, p_tags = None, p_entities = []\<rparr>"
  have dirJ: "getProjectsDir withJunk = ''/data/projects''"
    by (simp add: withJunk_def threeProjects_files)
  have filesJ: "projectFiles withJunk (''/data/projects'', f) =
      (if f = ''notes.txt'' \<or> f = ''junk.json'' then Some Malformed
       else projectFiles threeProjects (''/data/projects'', f))" for f
    by (simp add: withJunk_def)
  have readdirJ: "isReaddir withJunk ?files"
    by (auto simp: isReaddir_def dirJ filesJ threeProjects_files split: if_splits)
  have readdir3: "isReaddir threeProjects [''b.json'', ''a.json'', ''c.json'']"
    by (auto simp: isReaddir_def threeProjects_files split: if_splits)
  have empty: "\<forall>f. projectFiles freshStore (getProjectsDir freshStore, f) = None"
    by (simp add: freshStore_def)
  have times: "distinct [''a'', ''b'', ''c'']" "(10::int) < 20" "(20::int) < 30" "(30::int) < 40"
      "p_id ?p = ''a''"
    by simp_all
  have listed: "map p_name (fst (listProjects withJunk ?files)) =
      [''Project 1 Updated'', ''Project 3'', ''Project 2'']"
    by (simp add: listProjects_eq dirJ filesJ threeProjects_files endsWith_def)
  have printed: "map fst (consoleErrors (snd (listProjects withJunk ?files))) =
      [''Failed to read project file junk.json:'']"
    by (simp add: listProjects_eq dirJ filesJ threeProjects_files endsWith_def)
       (simp add: withJunk_def threeProjects_def updateProject_eq createProject_eq freshStore_def)
  have own3: "storedUnderOwnId threeProjects"
    unfolding threeProjects_def
    by (intro storedUnderOwnId_updateProject storedUnderOwnId_createProject
        storedUnderOwnId_freshStore)
  have ownJ: "storedUnderOwnId withJunk"
    using own3 unfolding storedUnderOwnId_def withJunk_def by simp
  note general = listProjects_recency_order [where s = withJunk and files = ?files, THEN conjunct1]
  have sorted: "sorted_wrt (\<lambda>a b. p_updatedAt b \<le> p_updatedAt a) (fst (listProjects withJunk ?files))"
    and count: "length (fst (listProjects withJunk ?files)) =
     card {f. endsWith f ''.json'' \<and>
              (\<exists>p. projectFiles withJunk (getProjectsDir withJunk, f) = Some (Json p))}"
    and all: "set (fst (listProjects withJunk ?files)) =
     {p. \<exists>f. projectFiles withJunk (getProjectsDir withJunk, f) = Some (Json p)}"
    using general readdirJ ownJ by blast+
  have "hd (fst (listProjects threeProjects [''b.json'', ''a.json'', ''c.json''])) =
      ?p\<lparr>p_updatedAt := 40\<rparr>"
    using listProjects_recency_order [where ?s0.0 = freshStore and ?i1.0 = "''a''" and ?i2.0 = "''b''"
        and ?i3.0 = "''c''" and ?u1.0 = 10 and ?u2.0 = 20 and ?u3.0 = 30 and t = 40 and p = ?p
        and files' = "[''b.json'', ''a.json'', ''c.json'']" and ?n1.0 = "''Project 1''"
        and ?n2.0 = "''Project 2''" and ?n3.0 = "''Project 3''" and ?d1.0 = None and ?d2.0 = None
        and ?d3.0 = None and ?g1.0 = None and ?g2.0 = None and ?g3.0 = None and ?c1.0 = 10
        and ?c2.0 = 20 and ?c3.0 = 30, THEN conjunct2]
      empty readdir3
    unfolding threeProjects_def [symmetric] by simp
  then have first: "p_name (hd (fst (listProjects threeProjects [''b.json'', ''a.json'', ''c.json'']))) =
      ''Project 1 Updated''"
    by simp
  show ?thesis
    using readdirJ ownJ all listed sorted count printed empty times readdir3 first by blast
qed
subsection \<open>Export\<close>






lemma listEntitiesByProject_ensureDirectories [simp]:
  "listEntitiesByProject (ensureDirectories s) i = listEntitiesByProject s i"
  by (simp add: listEntitiesByProject_def)




subsection \<open>Cascade delete\<close>

lemma deletionProgress_refl [simp]: "deletionProgress s s"
  by (simp add: deletionProgress_def)














end
